theory Spec2Isabelle
  imports Complex_Main
begin

section \<open>Data model (modules/lightrag/index.ts)\<close>

text \<open>
  JavaScript strings are modelled as \<^typ>\<open>string\<close>: one \<^typ>\<open>char\<close> stands for one code
  unit, so \<^term>\<open>length\<close> is \<^verbatim>\<open>.length\<close> and \<^term>\<open>take\<close> is \<^verbatim>\<open>substring(0, n)\<close>.
  A metadata object is the ordered list of its entries; its values are restricted to strings.
  Numbers that are scores are modelled as reals (no NaN), token counts as integers.
\<close>

type_synonym metadata_obj = "(string \<times> string) list"

record document =
  doc_id :: "string option"
  content :: string
  metadata :: "metadata_obj option"
  score :: "real option"
  doc_embedding :: "real list option"

record 'src context_result =
  context_str :: string
  sources :: "'src list"
  tokenCount :: int

text \<open>
  An optional key of an options object: the key is absent, it is present with the value
  \<open>undefined\<close>, or it is present with a value.
\<close>

datatype 'a optional = Absent | Undefined | Given 'a

record context_builder_options =
  maxContextLength :: "nat optional"
  formatAsJson :: "bool optional"
  includeMetadata :: "bool optional"
  separator :: "string optional"
  deduplicate :: "bool optional"

text \<open>
  The merged options as \<^verbatim>\<open>buildContext\<close> reads them: the flags by their truthiness, the
  separator as the string that \<^verbatim>\<open>context += mergedOptions.separator\<close> appends.
\<close>

record merged_options =
  m_maxContextLength :: "nat option"
  m_formatAsJson :: bool
  m_includeMetadata :: bool
  m_separator :: string
  m_deduplicate :: bool

section \<open>ContextBuilder (modules/lightrag/context-builder.ts)\<close>

definition defaultOptions :: merged_options where
  "defaultOptions =
     \<lparr>m_maxContextLength = Some 4000, m_formatAsJson = False, m_includeMetadata = True,
      m_separator = [CHR 0x0A, CHR 0x0A], m_deduplicate = True\<rparr>"

text \<open>
  \<^verbatim>\<open>{ ...this.defaultOptions, ...options }\<close>: a key the caller leaves out keeps its default,
  and a key present with the value \<open>undefined\<close> overwrites the default with \<open>undefined\<close>,
  which is falsy as a flag and reads \<open>undefined\<close> when appended as a separator.
\<close>

definition mergeOptions :: "context_builder_options option \<Rightarrow> merged_options" where
  "mergeOptions options =
     (case options of
        None \<Rightarrow> defaultOptions
      | Some opts \<Rightarrow>
          \<lparr>m_maxContextLength =
             (case maxContextLength opts of
                Absent \<Rightarrow> m_maxContextLength defaultOptions
              | Undefined \<Rightarrow> None
              | Given v \<Rightarrow> Some v),
           m_formatAsJson =
             (case formatAsJson opts of
                Absent \<Rightarrow> m_formatAsJson defaultOptions
              | Undefined \<Rightarrow> False
              | Given v \<Rightarrow> v),
           m_includeMetadata =
             (case includeMetadata opts of
                Absent \<Rightarrow> m_includeMetadata defaultOptions
              | Undefined \<Rightarrow> False
              | Given v \<Rightarrow> v),
           m_separator =
             (case separator opts of
                Absent \<Rightarrow> m_separator defaultOptions
              | Undefined \<Rightarrow> ''undefined''
              | Given v \<Rightarrow> v),
           m_deduplicate =
             (case deduplicate opts of
                Absent \<Rightarrow> m_deduplicate defaultOptions
              | Undefined \<Rightarrow> False
              | Given v \<Rightarrow> v)\<rparr>)"

text \<open>\<^verbatim>\<open>Math.ceil(text.length / 4)\<close>\<close>

definition estimateTokens :: "string \<Rightarrow> int" where
  "estimateTokens text = \<lceil>real (length text) / 4\<rceil>"

text \<open>\<^verbatim>\<open>doc.content.substring(0, 100)\<close>\<close>

definition contentFingerprint :: "document \<Rightarrow> string" where
  "contentFingerprint doc = take 100 (content doc)"

text \<open>
  The loop of \<^verbatim>\<open>deduplicateDocuments\<close>: \<open>seenContents\<close> is the set of fingerprints met so
  far, and a document is pushed to \<open>uniqueDocs\<close> when its fingerprint is new.
\<close>

fun dedupLoop :: "string set \<Rightarrow> document list \<Rightarrow> document list" where
  "dedupLoop seenContents [] = []"
| "dedupLoop seenContents (doc # docs) =
     (if contentFingerprint doc \<notin> seenContents
      then doc # dedupLoop (insert (contentFingerprint doc) seenContents) docs
      else dedupLoop seenContents docs)"

definition deduplicateDocuments :: "document list \<Rightarrow> document list" where
  "deduplicateDocuments documents = dedupLoop {} documents"

text \<open>
  \<^verbatim>\<open>[...processedDocuments].sort((a, b) => (b.score || 0) - (a.score || 0))\<close>: a stable sort,
  descending by score, a missing score counting as 0.
\<close>

definition scoreOrZero :: "document \<Rightarrow> real" where
  "scoreOrZero doc = (case score doc of None \<Rightarrow> 0 | Some s \<Rightarrow> s)"

definition sortByScore :: "document list \<Rightarrow> document list" where
  "sortByScore docs = sort_key (\<lambda>doc. - scoreOrZero doc) docs"

text \<open>\<^verbatim>\<open>Array.prototype.join\<close> on strings.\<close>

fun join :: "string \<Rightarrow> string list \<Rightarrow> string" where
  "join sep [] = []"
| "join sep [x] = x"
| "join sep (x # y # ys) = x @ sep @ join sep (y # ys)"

text \<open>\<^verbatim>\<open>Object.entries(doc.metadata || {}).map(([key, value]) => `${key}: ${value}`).join(', ')\<close>\<close>

definition metadataStr :: "metadata_obj option \<Rightarrow> string" where
  "metadataStr md =
     join '', '' (map (\<lambda>(key, v). key @ '': '' @ v) (case md of None \<Rightarrow> [] | Some m \<Rightarrow> m))"

text \<open>
  The state of either rendering loop: the \<open>context\<close> built so far, \<open>sourceDocuments\<close> and
  \<open>totalTokenCount\<close>.
\<close>

record builder_state =
  b_context :: string
  b_sourceDocuments :: "document list"
  b_totalTokenCount :: int

text \<open>One iteration of \<^verbatim>\<open>for (const doc of sortedDocuments)\<close> in the plain-text branch.\<close>

definition textStep :: "merged_options \<Rightarrow> builder_state \<Rightarrow> document \<Rightarrow> builder_state" where
  "textStep mo st doc =
     (let docTokens = estimateTokens (content doc);
          c1 = (if b_context st \<noteq> [] then b_context st @ m_separator mo else b_context st);
          c2 = (if m_includeMetadata mo \<and> metadataStr (metadata doc) \<noteq> []
                then c1 @ ''['' @ metadataStr (metadata doc) @ '']'' @ [CHR 0x0A]
                else c1)
      in \<lparr>b_context = c2 @ content doc,
          b_sourceDocuments = b_sourceDocuments st @ [doc],
          b_totalTokenCount = b_totalTokenCount st + docTokens\<rparr>)"

subsection \<open>JSON rendering\<close>

text \<open>
  \<^verbatim>\<open>JSON.stringify(contextArray, null, 2)\<close> on an array of objects with a string \<open>content\<close> and
  an optional \<open>metadata\<close> object of strings; a key whose value is \<open>undefined\<close> is left out.
\<close>

record json_item =
  j_content :: string
  j_metadata :: "metadata_obj option"

definition hexDigit :: "nat \<Rightarrow> char" where
  "hexDigit n = ''0123456789abcdef'' ! (n mod 16)"

definition jsonEscape :: "char \<Rightarrow> string" where
  "jsonEscape c =
     (if c = CHR 0x22 then [CHR 0x5C, CHR 0x22]
      else if c = CHR 0x5C then [CHR 0x5C, CHR 0x5C]
      else if c = CHR 0x08 then [CHR 0x5C, CHR ''b'']
      else if c = CHR 0x0C then [CHR 0x5C, CHR ''f'']
      else if c = CHR 0x0A then [CHR 0x5C, CHR ''n'']
      else if c = CHR 0x0D then [CHR 0x5C, CHR ''r'']
      else if c = CHR 0x09 then [CHR 0x5C, CHR ''t'']
      else if of_char c < (32 :: nat)
        then [CHR 0x5C, CHR ''u'', CHR ''0'', CHR ''0'',
              hexDigit (of_char c div 16), hexDigit (of_char c)]
      else [c])"

definition jsonQuote :: "string \<Rightarrow> string" where
  "jsonQuote s = [CHR 0x22] @ concat (map jsonEscape s) @ [CHR 0x22]"

definition jsonMetadata :: "metadata_obj \<Rightarrow> string" where
  "jsonMetadata m =
     (if m = [] then ''{}''
      else ''{'' @ [CHR 0x0A]
        @ join ('','' @ [CHR 0x0A])
            (map (\<lambda>(key, v). ''      '' @ jsonQuote key @ '': '' @ jsonQuote v) m)
        @ [CHR 0x0A] @ ''    }'')"

definition jsonItem :: "json_item \<Rightarrow> string" where
  "jsonItem it =
     ''{'' @ [CHR 0x0A]
       @ ''    '' @ jsonQuote ''content'' @ '': '' @ jsonQuote (j_content it)
       @ (case j_metadata it of
            None \<Rightarrow> []
          | Some m \<Rightarrow> '','' @ [CHR 0x0A] @ ''    '' @ jsonQuote ''metadata'' @ '': '' @ jsonMetadata m)
       @ [CHR 0x0A] @ ''  }''"

definition jsonStringify :: "json_item list \<Rightarrow> string" where
  "jsonStringify arr =
     (if arr = [] then ''[]''
      else ''['' @ [CHR 0x0A]
        @ join ('','' @ [CHR 0x0A]) (map (\<lambda>it. ''  '' @ jsonItem it) arr)
        @ [CHR 0x0A] @ '']'')"

text \<open>
  One call of the callback of \<^verbatim>\<open>sortedDocuments.map\<close> in the JSON branch: it counts the
  document's tokens, pushes the document to \<open>sourceDocuments\<close> and yields the array element.
\<close>

definition jsonStep ::
  "merged_options \<Rightarrow> builder_state \<times> json_item list \<Rightarrow> document
    \<Rightarrow> builder_state \<times> json_item list" where
  "jsonStep mo acc doc =
     (let st = fst acc; contextArray = snd acc
      in (st\<lparr>b_sourceDocuments := b_sourceDocuments st @ [doc],
              b_totalTokenCount := b_totalTokenCount st + estimateTokens (content doc)\<rparr>,
          contextArray @
            [\<lparr>j_content = content doc,
              j_metadata = (if m_includeMetadata mo then metadata doc else None)\<rparr>]))"

definition initialState :: builder_state where
  "initialState = \<lparr>b_context = [], b_sourceDocuments = [], b_totalTokenCount = 0\<rparr>"

definition buildContext ::
  "document list \<Rightarrow> context_builder_options option \<Rightarrow> document context_result" where
  "buildContext documents options =
     (let mergedOptions = mergeOptions options;
          processedDocuments =
            (if m_deduplicate mergedOptions then deduplicateDocuments documents else documents);
          sortedDocuments = sortByScore processedDocuments
      in if m_formatAsJson mergedOptions
         then (let r = foldl (jsonStep mergedOptions) (initialState, []) sortedDocuments
               in \<lparr>context_str = jsonStringify (snd r),
                   sources = b_sourceDocuments (fst r),
                   tokenCount = b_totalTokenCount (fst r)\<rparr>)
         else (let st = foldl (textStep mergedOptions) initialState sortedDocuments
               in \<lparr>context_str = b_context st,
                   sources = b_sourceDocuments st,
                   tokenCount = b_totalTokenCount st\<rparr>))"

text \<open>The documents that reach the rendering loops, in their order.\<close>

definition emitted :: "document list \<Rightarrow> context_builder_options option \<Rightarrow> document list" where
  "emitted documents options =
     sortByScore (if m_deduplicate (mergeOptions options)
                  then deduplicateDocuments documents else documents)"

section \<open>Exceptions, the process environment and the external collaborators\<close>

text \<open>
  A thrown value is either an \<open>Error\<close> instance with its message or some other value; a
  computation that can throw returns a sum \<open>exn + 'a\<close>, with \<^term>\<open>Inl\<close> for the throw.
\<close>

datatype exn = Error string | Thrown

text \<open>\<^verbatim>\<open>error instanceof Error ? error.message : 'Unknown error'\<close>\<close>

definition errorText :: "exn \<Rightarrow> string" where
  "errorText e = (case e of Error msg \<Rightarrow> msg | Thrown \<Rightarrow> ''Unknown error'')"

text \<open>\<^verbatim>\<open>a || b\<close> on an optional string: \<open>undefined\<close> and \<open>''\<close> are falsy.\<close>

definition strOr :: "string option \<Rightarrow> string \<Rightarrow> string" where
  "strOr a b = (case a of None \<Rightarrow> b | Some s \<Rightarrow> if s = [] then b else s)"

record environment =
  SUPABASE_URL :: "string option"
  SUPABASE_SERVICE_ROLE_KEY :: "string option"
  AWS_ACCESS_KEY_ID :: "string option"
  AWS_SECRET_ACCESS_KEY :: "string option"
  FIREWORKS_API_KEY :: "string option"
  BRAVE_SEARCH_API_KEY :: "string option"

record usage_record =
  u_ai_instance_id :: string
  u_provider :: string
  u_model :: string
  u_operation_type :: string
  u_input_tokens :: int
  u_output_tokens :: int
  u_total_tokens :: int

record embedding_result =
  embedding :: "real list"
  embeddingTokenCount :: int

text \<open>The body of the Fireworks embeddings response, as far as the embedder reads it.\<close>

record fireworks_data =
  fw_embedding :: "real list option"
  fw_total_tokens :: "int option"

record fireworks_response =
  fw_ok :: bool
  fw_status :: nat
  fw_errorData :: string
  fw_json :: "exn + fireworks_data"

record retrieval_options =
  r_aiInstanceId :: string
  r_maxChunks :: int
  r_similarityThreshold :: real
  r_filter :: metadata_obj

record source_metadata =
  sm_source :: string
  sm_url :: string
  sm_title :: string
  sm_date :: "string option"

record context_source =
  cs_id :: string
  cs_content :: string
  cs_metadata :: source_metadata

record token_usage =
  contextTokens :: "int option"
  completionTokens :: "int option"
  totalTokens :: "int option"

record mcp_response =
  success :: bool
  data_content :: "string option"
  response_error :: "string option"
  usage :: "token_usage option"

record model_request =
  mr_provider :: string
  mr_modelId :: string
  mr_messages :: "(string \<times> string) list"
  mr_maxTokens :: nat
  mr_temperature :: real
  mr_aiInstanceId :: string

record rag_configuration =
  embedding_provider :: "string option"
  embedding_model_id :: "string option"
  max_chunks :: "int option"
  similarity_threshold :: "real option"
  enable_deduplication :: "bool option"
  track_token_usage :: "bool option"
  enable_fallback_search :: "bool option"

text \<open>
  What one invocation talks to: the process environment, the platform's \<^verbatim>\<open>Math.sin\<close>, the
  Supabase client library and the configuration table, the Fireworks embeddings endpoint, the retriever (its result is
  whatever the document store answers, so it is taken as a function of the query vector and
  the retrieval options), the web-search provider held by the context provider, and the model
  router. Each may throw.
\<close>

record world =
  w_env :: environment
  w_sin :: "real \<Rightarrow> real"
  w_createClient :: "string \<Rightarrow> string \<Rightarrow> exn option"
  w_ragConfiguration :: "string \<Rightarrow> exn + rag_configuration option"
  w_fireworksEmbeddings :: "string \<Rightarrow> string \<Rightarrow> exn + fireworks_response"
  w_retrieveDocuments :: "real list \<Rightarrow> retrieval_options \<Rightarrow> exn + document list"
  w_webSearch :: "string \<Rightarrow> string \<Rightarrow> exn + context_source context_result"
  w_routeModelCall :: "model_request \<Rightarrow> exn + mcp_response"

text \<open>The calls that leave the process, in the order they are made.\<close>

datatype event =
    UsageInsert usage_record
  | FireworksRequest
  | RetrieveCall
  | WebSearchCall string
  | ModelCall

text \<open>Sequencing of steps that may throw: the first throw ends the block, the events add up.\<close>

definition andThen ::
  "(exn + 'a) \<times> event list \<Rightarrow> ('a \<Rightarrow> (exn + 'b) \<times> event list)
    \<Rightarrow> (exn + 'b) \<times> event list" where
  "andThen m f =
     (case fst m of
        Inl e \<Rightarrow> (Inl e, snd m)
      | Inr a \<Rightarrow> (fst (f a), snd m @ snd (f a)))"

definition returns :: "'a \<Rightarrow> (exn + 'a) \<times> event list" where
  "returns a = (Inr a, [])"

definition throws :: "exn \<Rightarrow> (exn + 'a) \<times> event list" where
  "throws e = (Inl e, [])"

section \<open>Embedding providers (modules/lightrag/embedder.ts)\<close>

text \<open>
  \<^verbatim>\<open>trackEmbeddingUsage\<close>: one insert into \<open>usage_logs\<close>, skipped when the Supabase
  credentials are missing or the client cannot be created; nothing it does is thrown on.
\<close>

definition trackEmbeddingUsage :: "world \<Rightarrow> string \<Rightarrow> string \<Rightarrow> string \<Rightarrow> int \<Rightarrow> event list" where
  "trackEmbeddingUsage w aiInstanceId provider modelId n =
     (let supabaseUrl = strOr (SUPABASE_URL (w_env w)) [];
          supabaseKey = strOr (SUPABASE_SERVICE_ROLE_KEY (w_env w)) []
      in if supabaseUrl = [] \<or> supabaseKey = [] then []
         else (case w_createClient w supabaseUrl supabaseKey of
                 Some e \<Rightarrow> []
               | None \<Rightarrow>
                   [UsageInsert
                      \<lparr>u_ai_instance_id = aiInstanceId, u_provider = provider, u_model = modelId,
                       u_operation_type = ''embedding'', u_input_tokens = n,
                       u_output_tokens = 0, u_total_tokens = n\<rparr>]))"

record bedrock_embedder =
  b_modelId :: string
  b_region :: string
  b_accessKeyId :: string
  b_secretAccessKey :: string
  b_trackUsage :: bool

record fireworks_embedder =
  f_modelId :: string
  f_apiKey :: string
  f_trackUsage :: bool

datatype embedding_provider =
    BedrockEmbedder bedrock_embedder
  | FireworksEmbedder fireworks_embedder

record provider_config =
  c_apiKey :: "string option"
  c_region :: "string option"
  c_accessKeyId :: "string option"
  c_secretAccessKey :: "string option"
  c_trackUsage :: "bool option"

text \<open>\<^verbatim>\<open>config?.trackUsage !== undefined ? config.trackUsage : true\<close>\<close>

definition trackUsageOf :: "bool option \<Rightarrow> bool" where
  "trackUsageOf t = (case t of None \<Rightarrow> True | Some b \<Rightarrow> b)"

text \<open>The constructor of \<^verbatim>\<open>BedrockEmbedder\<close>; a parameter left \<open>undefined\<close> takes its default.\<close>

definition newBedrockEmbedder ::
  "environment \<Rightarrow> string option \<Rightarrow> string option \<Rightarrow> string option \<Rightarrow> string option
    \<Rightarrow> bool option \<Rightarrow> bedrock_embedder" where
  "newBedrockEmbedder env modelId region accessKeyId secretAccessKey trackUsage =
     \<lparr>b_modelId = (case modelId of None \<Rightarrow> ''amazon.titan-embed-text-v1'' | Some m \<Rightarrow> m),
      b_region = (case region of None \<Rightarrow> ''us-east-1'' | Some r \<Rightarrow> r),
      b_accessKeyId = strOr accessKeyId (strOr (AWS_ACCESS_KEY_ID env) []),
      b_secretAccessKey = strOr secretAccessKey (strOr (AWS_SECRET_ACCESS_KEY env) []),
      b_trackUsage = trackUsageOf trackUsage\<rparr>"

definition newFireworksEmbedder ::
  "environment \<Rightarrow> string option \<Rightarrow> string option \<Rightarrow> bool option \<Rightarrow> fireworks_embedder" where
  "newFireworksEmbedder env modelId apiKey trackUsage =
     \<lparr>f_modelId = (case modelId of None \<Rightarrow> ''deepseek-v3'' | Some m \<Rightarrow> m),
      f_apiKey = strOr apiKey (strOr (FIREWORKS_API_KEY env) []),
      f_trackUsage = trackUsageOf trackUsage\<rparr>"

text \<open>
  \<^verbatim>\<open>String.prototype.toLowerCase\<close> on the code units below 256: the ASCII capitals and the
  Latin-1 capitals (all of 0xC0 to 0xDE but the multiplication sign) move up by 32.
\<close>

definition toLowerChar :: "char \<Rightarrow> char" where
  "toLowerChar c =
     (let n = (of_char c :: nat)
      in if (65 \<le> n \<and> n \<le> 90) \<or> (192 \<le> n \<and> n \<le> 222 \<and> n \<noteq> 215)
         then char_of (n + 32) else c)"

definition toLowerCase :: "string \<Rightarrow> string" where
  "toLowerCase s = map toLowerChar s"

text \<open>
  \<^verbatim>\<open>createEmbeddingProvider\<close>. No branch of it throws; the result is a sum like that of
  every other operation so that a failure could be told from a provider.
\<close>

definition createEmbeddingProvider ::
  "environment \<Rightarrow> string \<Rightarrow> string option \<Rightarrow> provider_config option
    \<Rightarrow> exn + embedding_provider" where
  "createEmbeddingProvider env provider modelId config =
     (let providerName = strOr (Some (toLowerCase provider)) ''fireworks'';
          cfg = (case config of
                   None \<Rightarrow> \<lparr>c_apiKey = None, c_region = None, c_accessKeyId = None,
                            c_secretAccessKey = None, c_trackUsage = None\<rparr>
                 | Some c \<Rightarrow> c)
      in if providerName = ''bedrock''
         then Inr (BedrockEmbedder
                (newBedrockEmbedder env modelId (Some (strOr (c_region cfg) ''us-east-1''))
                   (c_accessKeyId cfg) (c_secretAccessKey cfg) (c_trackUsage cfg)))
         else if providerName = ''fireworks''
         then Inr (FireworksEmbedder
                (newFireworksEmbedder env (Some (strOr modelId ''deepseek-v3''))
                   (c_apiKey cfg) (c_trackUsage cfg)))
         else Inr (FireworksEmbedder
                (newFireworksEmbedder env (Some (strOr modelId ''deepseek-v3''))
                   (c_apiKey cfg) (c_trackUsage cfg))))"

text \<open>Decimal rendering of a number in a template string.\<close>

function showNat :: "nat \<Rightarrow> string" where
  "showNat n =
     (if n < 10 then [''0123456789'' ! n]
      else showNat (n div 10) @ [''0123456789'' ! (n mod 10)])"
  by pat_completeness auto
termination
  by (relation "measure (\<lambda>n. n)") auto

declare showNat.simps [simp del]

text \<open>
  The placeholder vector of \<^verbatim>\<open>BedrockEmbedder.generateEmbedding\<close>:
  \<^verbatim>\<open>new Array(1536).fill(0).map((_, i) => Math.sin(i * 0.01 + seed * 0.1) * 0.5)\<close>, with the
  platform's sine as a parameter and the arithmetic on real numbers.
\<close>

definition mockEmbedding :: "(real \<Rightarrow> real) \<Rightarrow> nat \<Rightarrow> real list" where
  "mockEmbedding mathSin seed =
     map (\<lambda>i. mathSin (real i * 0.01 + real seed * 0.1) * 0.5) [0..<1536]"

text \<open>The \<open>try\<close> block of \<^verbatim>\<open>BedrockEmbedder.generateEmbedding\<close>.\<close>

definition bedrockTry ::
  "world \<Rightarrow> bedrock_embedder \<Rightarrow> string \<Rightarrow> string option
    \<Rightarrow> (exn + embedding_result) \<times> event list" where
  "bedrockTry w self text aiInstanceId =
     (if b_accessKeyId self = [] \<or> b_secretAccessKey self = []
      then throws (Error ''AWS credentials are required for Bedrock embedding generation'')
      else
        (let estimatedTokenCount = estimateTokens text;
             seed = length text
         in (Inr \<lparr>embedding = mockEmbedding (w_sin w) seed,
                  embeddingTokenCount = estimatedTokenCount\<rparr>,
             (if b_trackUsage self \<and> strOr aiInstanceId [] \<noteq> []
              then trackEmbeddingUsage w (strOr aiInstanceId []) ''bedrock'' (b_modelId self)
                     estimatedTokenCount
              else []))))"

text \<open>\<^verbatim>\<open>catch (error) { throw new Error(`<prefix>${...}`) }\<close>\<close>

definition rethrow ::
  "string \<Rightarrow> (exn + 'a) \<times> event list \<Rightarrow> (exn + 'a) \<times> event list" where
  "rethrow prefix m =
     (case fst m of
        Inl e \<Rightarrow> (Inl (Error (prefix @ errorText e)), snd m)
      | Inr a \<Rightarrow> (Inr a, snd m))"

definition bedrockGenerateEmbedding ::
  "world \<Rightarrow> bedrock_embedder \<Rightarrow> string \<Rightarrow> string option
    \<Rightarrow> (exn + embedding_result) \<times> event list" where
  "bedrockGenerateEmbedding w self text aiInstanceId =
     rethrow ''Failed to generate embedding with Bedrock: '' (bedrockTry w self text aiInstanceId)"

text \<open>The \<open>try\<close> block of \<^verbatim>\<open>FireworksEmbedder.generateEmbedding\<close>.\<close>

definition fireworksTry ::
  "world \<Rightarrow> fireworks_embedder \<Rightarrow> string \<Rightarrow> string option
    \<Rightarrow> (exn + embedding_result) \<times> event list" where
  "fireworksTry w self text aiInstanceId =
     (if f_apiKey self = []
      then throws (Error ''Fireworks API key is required for embedding generation'')
      else
        (let embeddingModel =
               (if f_modelId self = ''deepseek-v3''
                then ''accounts/fireworks/models/deepseek-v3-embedding''
                else if f_modelId self = ''deepseek-v2-lite''
                then ''accounts/fireworks/models/deepseek-v2-lite-embedding''
                else f_modelId self);
             estimatedTokenCount = estimateTokens text
         in andThen
              (case w_fireworksEmbeddings w embeddingModel text of
                 Inl e \<Rightarrow> (Inl e, [FireworksRequest])
               | Inr response \<Rightarrow> (Inr response, [FireworksRequest]))
              (\<lambda>response.
                 if \<not> fw_ok response
                 then throws (Error (''Fireworks API error: '' @ showNat (fw_status response)
                                       @ '' - '' @ fw_errorData response))
                 else
                   (case fw_json response of
                      Inl e \<Rightarrow> throws e
                    | Inr d \<Rightarrow>
                        (let tokenCount =
                               (case fw_total_tokens d of
                                  None \<Rightarrow> estimatedTokenCount
                                | Some n \<Rightarrow> if n = 0 then estimatedTokenCount else n)
                         in case fw_embedding d of
                              None \<Rightarrow>
                                throws (Error ''Invalid embedding response from Fireworks API'')
                            | Some v \<Rightarrow>
                                (Inr \<lparr>embedding = v, embeddingTokenCount = tokenCount\<rparr>,
                                 (if f_trackUsage self \<and> strOr aiInstanceId [] \<noteq> []
                                  then trackEmbeddingUsage w (strOr aiInstanceId []) ''fireworks''
                                         (f_modelId self) tokenCount
                                  else [])))))))"

definition fireworksGenerateEmbedding ::
  "world \<Rightarrow> fireworks_embedder \<Rightarrow> string \<Rightarrow> string option
    \<Rightarrow> (exn + embedding_result) \<times> event list" where
  "fireworksGenerateEmbedding w self text aiInstanceId =
     rethrow ''Failed to generate embedding with Fireworks: ''
       (fireworksTry w self text aiInstanceId)"

text \<open>\<^verbatim>\<open>provider.generateEmbedding(text, aiInstanceId)\<close> through the interface.\<close>

definition generateEmbedding ::
  "world \<Rightarrow> embedding_provider \<Rightarrow> string \<Rightarrow> string option
    \<Rightarrow> (exn + embedding_result) \<times> event list" where
  "generateEmbedding w provider text aiInstanceId =
     (case provider of
        BedrockEmbedder self \<Rightarrow> bedrockGenerateEmbedding w self text aiInstanceId
      | FireworksEmbedder self \<Rightarrow> fireworksGenerateEmbedding w self text aiInstanceId)"

section \<open>Brave Search provider (context/providers/brave.ts)\<close>

record brave_search_result =
  br_title :: string
  br_url :: string
  br_description :: string
  br_updated :: "string option"
  br_extra_snippets :: "string list option"

record brave_search_response =
  web_results :: "brave_search_result list option"
  news_results :: "brave_search_result list option"

record brave_http_response =
  bh_ok :: bool
  bh_status :: nat
  bh_statusText :: string
  bh_json :: "exn + brave_search_response"

record brave_options =
  bo_aiInstanceId :: "string option"
  bo_maxResults :: "int option"

text \<open>
  The provider object: its API key (\<^verbatim>\<open>process.env.BRAVE_SEARCH_API_KEY || ''\<close>) and the
  search endpoint it fetches from, a function of the query and the requested count.
\<close>

record brave_search_provider =
  apiKey :: string
  searchApi :: "string \<Rightarrow> int \<Rightarrow> exn + brave_http_response"

definition newBraveSearchProvider ::
  "environment \<Rightarrow> (string \<Rightarrow> int \<Rightarrow> exn + brave_http_response) \<Rightarrow> brave_search_provider" where
  "newBraveSearchProvider env api =
     \<lparr>apiKey = strOr (BRAVE_SEARCH_API_KEY env) [], searchApi = api\<rparr>"

text \<open>\<^verbatim>\<open>String.prototype.trim\<close> on the code units below 256.\<close>

definition isWhitespace :: "char \<Rightarrow> bool" where
  "isWhitespace c = ((of_char c :: nat) \<in> {9, 10, 11, 12, 13, 32, 160})"

definition trim :: "string \<Rightarrow> string" where
  "trim s = rev (dropWhile isWhitespace (rev (dropWhile isWhitespace s)))"

text \<open>\<^verbatim>\<open>xs.slice(0, n)\<close> for an integer \<open>n\<close>: a negative \<open>n\<close> counts from the end.\<close>

definition slice0 :: "'a list \<Rightarrow> int \<Rightarrow> 'a list" where
  "slice0 xs n = (if n < 0 then take (nat (int (length xs) + n)) xs else take (nat n) xs)"

definition nl :: string where
  "nl = [CHR 0x0A]"

text \<open>\<^verbatim>\<open>getMockResults(query, maxResults = 3)\<close>\<close>

definition getMockResults :: "string \<Rightarrow> int option \<Rightarrow> context_source context_result" where
  "getMockResults query maxResults =
     (let mockSources =
            slice0
              [\<lparr>cs_id = ''web-1'',
                cs_content = ''Search result about '' @ query @ ''.'',
                cs_metadata = \<lparr>sm_source = ''web'', sm_url = ''https://example.com/search-result-1'',
                               sm_title = ''Information about '' @ query, sm_date = None\<rparr>\<rparr>,
               \<lparr>cs_id = ''web-2'',
                cs_content = ''Additional information related to '' @ query
                               @ '' from another source.'',
                cs_metadata = \<lparr>sm_source = ''web'', sm_url = ''https://example.com/search-result-2'',
                               sm_title = ''More about '' @ query, sm_date = None\<rparr>\<rparr>]
              (case maxResults of None \<Rightarrow> 3 | Some n \<Rightarrow> n);
          mockContext =
            trim (nl @ ''From web search:'' @ nl @ nl
              @ ''Source 1: Information about '' @ query @ nl
              @ ''URL: https://example.com/search-result-1'' @ nl
              @ ''Search result about '' @ query @ ''.'' @ nl @ nl
              @ ''Source 2: More about '' @ query @ nl
              @ ''URL: https://example.com/search-result-2'' @ nl
              @ ''Additional information related to '' @ query @ '' from another source.'' @ nl
              @ ''    '')
      in \<lparr>context_str = mockContext, sources = mockSources,
          tokenCount = \<lceil>real (length mockContext) / 4\<rceil>\<rparr>)"

text \<open>
  The two \<^verbatim>\<open>forEach((result, index) => ...)\<close> loops; the accumulator is \<open>sources\<close> and
  \<open>contextString\<close>.
\<close>

fun webLoop ::
  "nat \<Rightarrow> brave_search_result list \<Rightarrow> context_source list \<times> string
    \<Rightarrow> context_source list \<times> string" where
  "webLoop index [] acc = acc"
| "webLoop index (result # rest) acc =
     webLoop (index + 1) rest
       (fst acc @
          [\<lparr>cs_id = ''web-'' @ showNat (index + 1), cs_content = br_description result,
            cs_metadata = \<lparr>sm_source = ''web'', sm_url = br_url result,
                           sm_title = br_title result, sm_date = None\<rparr>\<rparr>],
        snd acc
          @ ''Source '' @ showNat (index + 1) @ '': '' @ br_title result @ nl
          @ ''URL: '' @ br_url result @ nl
          @ br_description result @ nl
          @ (case br_extra_snippets result of
               None \<Rightarrow> []
             | Some snippets \<Rightarrow>
                 if snippets = [] then []
                 else ''Additional information: '' @ join '' '' snippets @ nl)
          @ nl)"

fun newsLoop ::
  "nat \<Rightarrow> brave_search_result list \<Rightarrow> context_source list \<times> string
    \<Rightarrow> context_source list \<times> string" where
  "newsLoop index [] acc = acc"
| "newsLoop index (result # rest) acc =
     newsLoop (index + 1) rest
       (fst acc @
          [\<lparr>cs_id = ''news-'' @ showNat (index + 1), cs_content = br_description result,
            cs_metadata = \<lparr>sm_source = ''news'', sm_url = br_url result,
                           sm_title = br_title result, sm_date = br_updated result\<rparr>\<rparr>],
        snd acc
          @ ''Source '' @ showNat (index + 1) @ '': '' @ br_title result @ nl
          @ ''URL: '' @ br_url result @ nl
          @ (if strOr (br_updated result) [] \<noteq> []
             then ''Date: '' @ strOr (br_updated result) [] @ nl else [])
          @ br_description result @ nl @ nl)"

text \<open>\<^verbatim>\<open>options.maxResults || 5\<close>\<close>

definition maxResultsOf :: "brave_options \<Rightarrow> int" where
  "maxResultsOf opts = (case bo_maxResults opts of None \<Rightarrow> 5 | Some n \<Rightarrow> if n = 0 then 5 else n)"

text \<open>
  The \<open>try\<close> block of \<^verbatim>\<open>BraveSearchProvider.getContext\<close>; without an options object,
  reading \<^verbatim>\<open>options.maxResults\<close> throws inside it.
\<close>

definition braveTry ::
  "brave_search_provider \<Rightarrow> string \<Rightarrow> brave_options option
    \<Rightarrow> exn + context_source context_result" where
  "braveTry self query options =
     (case options of
        None \<Rightarrow> Inl (Error ''Cannot read properties of undefined (reading 'maxResults')'')
      | Some opts \<Rightarrow>
          (let maxResults = maxResultsOf opts
           in if apiKey self = [] then Inr (getMockResults query (Some maxResults))
              else
                (case searchApi self query maxResults of
                   Inl e \<Rightarrow> Inl e
                 | Inr response \<Rightarrow>
                     if \<not> bh_ok response
                     then Inl (Error (''Brave Search API error: '' @ showNat (bh_status response)
                                        @ '' '' @ bh_statusText response))
                     else
                       (case bh_json response of
                          Inl e \<Rightarrow> Inl e
                        | Inr d \<Rightarrow>
                            (let acc0 = ([], []);
                                 acc1 = (case web_results d of
                                           None \<Rightarrow> acc0
                                         | Some rs \<Rightarrow>
                                             if rs = [] then acc0
                                             else webLoop 0 rs
                                                    (fst acc0,
                                                     snd acc0 @ ''From web search:'' @ nl @ nl));
                                 acc2 = (case news_results d of
                                           None \<Rightarrow> acc1
                                         | Some rs \<Rightarrow>
                                             if rs = [] then acc1
                                             else newsLoop 0 rs
                                                    (fst acc1,
                                                     snd acc1 @ ''News results:'' @ nl @ nl));
                                 srcs = fst acc2;
                                 contextString =
                                   (if srcs = []
                                    then ''No search results found for: '' @ [CHR 0x22] @ query
                                           @ [CHR 0x22]
                                    else snd acc2)
                             in Inr \<lparr>context_str = contextString, sources = srcs,
                                     tokenCount = \<lceil>real (length contextString) / 4\<rceil>\<rparr>)))))"

text \<open>
  \<^verbatim>\<open>BraveSearchProvider.getContext\<close>: whatever the \<open>try\<close> block throws is answered with
  the mock results at the default size.
\<close>

definition braveGetContext ::
  "brave_search_provider \<Rightarrow> string \<Rightarrow> brave_options option
    \<Rightarrow> exn + context_source context_result" where
  "braveGetContext self query options =
     (case braveTry self query options of
        Inl e \<Rightarrow> Inr (getMockResults query None)
      | Inr r \<Rightarrow> Inr r)"

section \<open>LightRAG context provider (context/providers/lightrag.ts)\<close>

text \<open>A source of the provider's result: a retrieved document or a web-search source.\<close>

datatype source = DocumentSource document | WebSource context_source

record provider_options =
  o_aiInstanceId :: "string option"
  o_embeddingProvider :: "string option"
  o_embeddingModel :: "string option"
  o_maxChunks :: "int option"
  o_similarityThreshold :: "real option"
  o_maxTokens :: "nat option"
  o_filter :: "metadata_obj option"

record usage_counts =
  uc_contextTokens :: int
  uc_completionTokens :: int
  uc_totalTokens :: int

record summary_result =
  summary :: string
  tokenUsage :: usage_counts

text \<open>\<^verbatim>\<open>a || b\<close> on optional numbers (\<open>undefined\<close> and 0 are falsy), \<^verbatim>\<open>a ?? b\<close> on optional booleans.\<close>

definition intOr :: "int option \<Rightarrow> int \<Rightarrow> int" where
  "intOr a b = (case a of None \<Rightarrow> b | Some n \<Rightarrow> if n = 0 then b else n)"

definition realOr :: "real option \<Rightarrow> real \<Rightarrow> real" where
  "realOr a b = (case a of None \<Rightarrow> b | Some x \<Rightarrow> if x = 0 then b else x)"

definition natOr :: "nat option \<Rightarrow> nat \<Rightarrow> nat" where
  "natOr a b = (case a of None \<Rightarrow> b | Some n \<Rightarrow> if n = 0 then b else n)"

definition boolOr :: "bool option \<Rightarrow> bool \<Rightarrow> bool" where
  "boolOr a b = (case a of None \<Rightarrow> b | Some v \<Rightarrow> v)"

text \<open>\<^verbatim>\<open>ragConfig?.field\<close>\<close>

definition configField :: "rag_configuration option \<Rightarrow> (rag_configuration \<Rightarrow> 'a option) \<Rightarrow> 'a option" where
  "configField ragConfig field = (case ragConfig of None \<Rightarrow> None | Some c \<Rightarrow> field c)"

text \<open>\<^verbatim>\<open>response.usage?.field\<close>\<close>

definition usageField :: "mcp_response \<Rightarrow> (token_usage \<Rightarrow> int option) \<Rightarrow> int option" where
  "usageField response field = (case usage response of None \<Rightarrow> None | Some u \<Rightarrow> field u)"

definition summarizationModelId :: string where
  "summarizationModelId = ''accounts/fireworks/models/claude-3-haiku-20240307''"

definition summarizationMessages :: "string \<Rightarrow> (string \<times> string) list" where
  "summarizationMessages searchContext =
     [(''system'',
       ''You are a helpful assistant that summarizes search results into concise, informative content.''),
      (''user'',
       ''Please summarize the following search results into a comprehensive response. Extract the most relevant information and present it in a clear, objective manner. Include key facts and details from multiple sources when available.''
       @ nl @ nl @ ''Search Results:'' @ nl @ searchContext @ nl @ nl
       @ ''Create a summary that:'' @ nl
       @ ''1. Captures the main points and key information'' @ nl
       @ ''2. Synthesizes information from multiple sources when possible'' @ nl
       @ ''3. Maintains factual accuracy'' @ nl
       @ ''4. Is formatted with clear paragraphs and bullet points where appropriate'' @ nl
       @ ''5. Is between 200-500 words'')]"

definition disclaimer :: string where
  "disclaimer = nl @ nl @ ''(This information is from web search results and may not be fully accurate. Refer to the original sources for verification.)''"

text \<open>The request \<^verbatim>\<open>summarizeWebResults\<close> sends to \<^verbatim>\<open>routeModelCall\<close>.\<close>

definition summarizationRequest :: "string \<Rightarrow> string \<Rightarrow> model_request" where
  "summarizationRequest searchContext aiInstanceId =
     \<lparr>mr_provider = ''fireworks'', mr_modelId = summarizationModelId,
      mr_messages = summarizationMessages searchContext, mr_maxTokens = 1000,
      mr_temperature = 0.3, mr_aiInstanceId = aiInstanceId\<rparr>"

definition summaryFailure :: summary_result where
  "summaryFailure =
     \<lparr>summary = ''Unable to summarize web search results due to an error.'',
      tokenUsage = \<lparr>uc_contextTokens = 0, uc_completionTokens = 0, uc_totalTokens = 0\<rparr>\<rparr>"

text \<open>The \<open>try\<close> block of \<^verbatim>\<open>summarizeWebResults\<close>.\<close>

definition summarizeTry ::
  "world \<Rightarrow> string \<Rightarrow> string \<Rightarrow> (exn + summary_result) \<times> event list" where
  "summarizeTry w searchContext aiInstanceId =
     andThen
       (case w_routeModelCall w (summarizationRequest searchContext aiInstanceId) of
          Inl e \<Rightarrow> (Inl e, [ModelCall])
        | Inr response \<Rightarrow> (Inr response, [ModelCall]))
       (\<lambda>response.
          if \<not> success response \<or> strOr (data_content response) [] = []
          then throws (Error (''Failed to summarize web results: ''
                                @ strOr (response_error response) ''Unknown error''))
          else returns
                 \<lparr>summary = strOr (data_content response) [] @ disclaimer,
                  tokenUsage =
                    \<lparr>uc_contextTokens = intOr (usageField response contextTokens) 0,
                     uc_completionTokens = intOr (usageField response completionTokens) 0,
                     uc_totalTokens = intOr (usageField response totalTokens) 0\<rparr>\<rparr>)"

text \<open>\<^verbatim>\<open>summarizeWebResults\<close>: its \<open>catch\<close> answers every throw with a fixed summary and zero usage.\<close>

definition summarizeWebResults :: "world \<Rightarrow> string \<Rightarrow> string \<Rightarrow> summary_result \<times> event list" where
  "summarizeWebResults w searchContext aiInstanceId =
     (case fst (summarizeTry w searchContext aiInstanceId) of
        Inl e \<Rightarrow> (summaryFailure, snd (summarizeTry w searchContext aiInstanceId))
      | Inr r \<Rightarrow> (r, snd (summarizeTry w searchContext aiInstanceId)))"

text \<open>The Supabase credentials the provider's constructor reads.\<close>

definition supabaseUrl :: "world \<Rightarrow> string" where
  "supabaseUrl w = strOr (SUPABASE_URL (w_env w)) []"

definition supabaseKey :: "world \<Rightarrow> string" where
  "supabaseKey w = strOr (SUPABASE_SERVICE_ROLE_KEY (w_env w)) []"

text \<open>\<^verbatim>\<open>trackSummarizationUsage\<close>: one insert, nothing thrown on.\<close>

definition trackSummarizationUsage :: "world \<Rightarrow> string \<Rightarrow> usage_counts \<Rightarrow> event list" where
  "trackSummarizationUsage w aiInstanceId tu =
     (case w_createClient w (supabaseUrl w) (supabaseKey w) of
        Some e \<Rightarrow> []
      | None \<Rightarrow>
          [UsageInsert
             \<lparr>u_ai_instance_id = aiInstanceId, u_provider = ''fireworks'',
              u_model = ''claude-3-haiku-20240307'', u_operation_type = ''summarization'',
              u_input_tokens = uc_contextTokens tu,
              u_output_tokens = uc_completionTokens tu,
              u_total_tokens = uc_totalTokens tu\<rparr>])"

text \<open>\<^verbatim>\<open>LightRAG.generateContext\<close> (modules/lightrag/index.ts): retrieve, then build.\<close>

definition generateContext ::
  "world \<Rightarrow> real list \<Rightarrow> retrieval_options \<Rightarrow> context_builder_options option
    \<Rightarrow> (exn + document context_result) \<times> event list" where
  "generateContext w emb options contextOptions =
     andThen
       (case w_retrieveDocuments w emb options of
          Inl e \<Rightarrow> (Inl e, [RetrieveCall])
        | Inr documents \<Rightarrow> (Inr documents, [RetrieveCall]))
       (\<lambda>documents. returns (buildContext documents contextOptions))"

text \<open>The values \<^verbatim>\<open>getContext\<close> settles on from the configuration row and the caller's options.\<close>

record settings =
  s_embeddingProvider :: string
  s_embeddingModel :: string
  s_maxChunks :: int
  s_similarityThreshold :: real
  s_maxTokens :: nat
  s_enableDeduplication :: bool
  s_trackTokenUsage :: bool
  s_enableFallbackSearch :: bool

definition resolveSettings :: "rag_configuration option \<Rightarrow> provider_options \<Rightarrow> settings" where
  "resolveSettings ragConfig options =
     \<lparr>s_embeddingProvider =
        strOr (configField ragConfig embedding_provider)
          (strOr (o_embeddingProvider options) ''fireworks''),
      s_embeddingModel =
        strOr (configField ragConfig embedding_model_id)
          (strOr (o_embeddingModel options) ''deepseek-v3''),
      s_maxChunks = intOr (configField ragConfig max_chunks) (intOr (o_maxChunks options) 5),
      s_similarityThreshold =
        realOr (configField ragConfig similarity_threshold)
          (realOr (o_similarityThreshold options) 0.7),
      s_maxTokens = natOr (o_maxTokens options) 4000,
      s_enableDeduplication = boolOr (configField ragConfig enable_deduplication) True,
      s_trackTokenUsage = boolOr (configField ragConfig track_token_usage) True,
      s_enableFallbackSearch = boolOr (configField ragConfig enable_fallback_search) True\<rparr>"

text \<open>The inner \<open>try\<close>/\<open>catch\<close> around provider creation and \<^verbatim>\<open>generateEmbedding\<close>.\<close>

definition embedQuery ::
  "world \<Rightarrow> settings \<Rightarrow> string \<Rightarrow> string \<Rightarrow> (exn + real list) \<times> event list" where
  "embedQuery w st query aiInstanceId =
     rethrow ''Failed to generate embedding: ''
       (andThen
          (createEmbeddingProvider (w_env w) (s_embeddingProvider st) (Some (s_embeddingModel st))
             (Some \<lparr>c_apiKey = None, c_region = None, c_accessKeyId = None,
                    c_secretAccessKey = None, c_trackUsage = Some True\<rparr>), [])
          (\<lambda>provider.
             andThen (generateEmbedding w provider query (Some aiInstanceId))
               (\<lambda>embeddingResult. returns (embedding embeddingResult))))"

text \<open>The \<open>retrievalOptions\<close> and \<open>contextOptions\<close> that \<^verbatim>\<open>getContext\<close> sets up.\<close>

definition retrievalOptionsOf :: "string \<Rightarrow> settings \<Rightarrow> provider_options \<Rightarrow> retrieval_options" where
  "retrievalOptionsOf aiInstanceId st options =
     \<lparr>r_aiInstanceId = aiInstanceId, r_maxChunks = s_maxChunks st,
      r_similarityThreshold = s_similarityThreshold st,
      r_filter = (case o_filter options of None \<Rightarrow> [] | Some f \<Rightarrow> f)\<rparr>"

definition contextOptionsOf :: "settings \<Rightarrow> context_builder_options" where
  "contextOptionsOf st =
     \<lparr>maxContextLength = Given (s_maxTokens st), formatAsJson = Given False,
      includeMetadata = Given True, separator = Absent,
      deduplicate = Given (s_enableDeduplication st)\<rparr>"

text \<open>What the primary stage hands to the rest of \<^verbatim>\<open>getContext\<close>.\<close>

record primary =
  p_aiInstanceId :: string
  p_settings :: settings
  p_contextResult :: "document context_result"

text \<open>
  \<^verbatim>\<open>getContext\<close> up to and including \<^verbatim>\<open>lightrag.generateContext\<close>: validate the options,
  create the client, load the configuration, embed the query, retrieve and build. The
  parameter \<open>options\<close> is untyped: \<^term>\<open>None\<close> stands for a call without an options object,
  where reading \<^verbatim>\<open>options.aiInstanceId\<close> throws a \<open>TypeError\<close> (the message is the
  one of V8).
\<close>

definition primaryStage ::
  "world \<Rightarrow> string \<Rightarrow> provider_options option \<Rightarrow> (exn + primary) \<times> event list" where
  "primaryStage w query options =
     andThen
       (case options of
          None \<Rightarrow> throws (Error ''Cannot read properties of undefined (reading 'aiInstanceId')'')
        | Some opts \<Rightarrow>
            if strOr (o_aiInstanceId opts) [] = []
            then throws (Error ''aiInstanceId is required'')
            else returns opts)
       (\<lambda>opts.
          let aiInstanceId = strOr (o_aiInstanceId opts) [] in
          andThen
            (case w_createClient w (supabaseUrl w) (supabaseKey w) of
               Some e \<Rightarrow> throws e
             | None \<Rightarrow> returns ())
            (\<lambda>_.
               andThen
                 (case w_ragConfiguration w aiInstanceId of
                    Inl e \<Rightarrow> throws e
                  | Inr ragConfig \<Rightarrow> returns ragConfig)
                 (\<lambda>ragConfig.
                    let st = resolveSettings ragConfig opts in
                    andThen (embedQuery w st query aiInstanceId)
                      (\<lambda>emb.
                         andThen
                              (generateContext w emb (retrievalOptionsOf aiInstanceId st opts)
                                 (Some (contextOptionsOf st)))
                              (\<lambda>contextResult.
                                 returns \<lparr>p_aiInstanceId = aiInstanceId, p_settings = st,
                                          p_contextResult = contextResult\<rparr>)))))"

definition documentResult :: "document context_result \<Rightarrow> source context_result" where
  "documentResult r =
     \<lparr>context_str = context_str r, sources = map DocumentSource (sources r),
      tokenCount = tokenCount r\<rparr>"

text \<open>
  The \<open>try\<close> block of the fallback: search the web and, when the search has text, summarize
  it and track the usage. \<^term>\<open>None\<close> stands for falling out of the block without a
  \<open>return\<close>.
\<close>

definition fallbackTry ::
  "world \<Rightarrow> string \<Rightarrow> primary \<Rightarrow> (exn + source context_result option) \<times> event list" where
  "fallbackTry w query p =
     andThen
       (case w_webSearch w query (p_aiInstanceId p) of
          Inl e \<Rightarrow> (Inl e, [WebSearchCall query])
        | Inr r \<Rightarrow> (Inr r, [WebSearchCall query]))
       (\<lambda>braveSearchResult.
          if context_str braveSearchResult \<noteq> []
          then
            (let s = summarizeWebResults w (context_str braveSearchResult) (p_aiInstanceId p)
             in (Inr (Some \<lparr>context_str = summary (fst s),
                           sources = map WebSource (sources braveSearchResult),
                           tokenCount = uc_totalTokens (tokenUsage (fst s))\<rparr>),
                 snd s @ (if s_trackTokenUsage (p_settings p)
                          then trackSummarizationUsage w (p_aiInstanceId p) (tokenUsage (fst s))
                          else [])))
          else returns None)"

text \<open>The \<open>try\<close> block of \<^verbatim>\<open>getContext\<close>.\<close>

definition getContextTry ::
  "world \<Rightarrow> string \<Rightarrow> provider_options option \<Rightarrow> (exn + source context_result) \<times> event list" where
  "getContextTry w query options =
     andThen (primaryStage w query options)
       (\<lambda>p.
          if sources (p_contextResult p) \<noteq> []
          then returns (documentResult (p_contextResult p))
          else if s_enableFallbackSearch (p_settings p)
          then (case fst (fallbackTry w query p) of
                  Inr (Some r) \<Rightarrow> (Inr r, snd (fallbackTry w query p))
                | Inr None \<Rightarrow>
                    (Inr (documentResult (p_contextResult p)), snd (fallbackTry w query p))
                | Inl searchError \<Rightarrow>
                    (Inr (documentResult (p_contextResult p)), snd (fallbackTry w query p)))
          else returns (documentResult (p_contextResult p)))"

text \<open>The message of the outer \<open>catch\<close>: a template string, trimmed.\<close>

definition errorMessage :: "exn \<Rightarrow> string" where
  "errorMessage e =
     trim (nl
       @ ''Unable to retrieve contextual information from documents at this time. The RAG system encountered an error: ''
       @ errorText e @ nl @ ''      '')"

text \<open>\<^verbatim>\<open>LightRAGContextProvider.getContext\<close>\<close>

definition getContext ::
  "world \<Rightarrow> string \<Rightarrow> provider_options option \<Rightarrow> (exn + source context_result) \<times> event list" where
  "getContext w query options =
     (case fst (getContextTry w query options) of
        Inl e \<Rightarrow>
          (Inr \<lparr>context_str = errorMessage e, sources = [],
               tokenCount = \<lceil>real (length (errorMessage e)) / 4\<rceil>\<rparr>,
           snd (getContextTry w query options))
      | Inr r \<Rightarrow> (Inr r, snd (getContextTry w query options)))"

text \<open>
  The call \<^verbatim>\<open>getContext\<close> makes on its Brave provider:
  \<^verbatim>\<open>this.braveSearchProvider.getContext(query, { aiInstanceId, maxResults: 5 })\<close>.
\<close>

definition braveWebSearch ::
  "brave_search_provider \<Rightarrow> string \<Rightarrow> string \<Rightarrow> exn + context_source context_result" where
  "braveWebSearch provider query aiInstanceId =
     braveGetContext provider query
       (Some \<lparr>bo_aiInstanceId = Some aiInstanceId, bo_maxResults = Some 5\<rparr>)"

text \<open>How often the web search and the model router were called.\<close>

definition webSearchCalls :: "event list \<Rightarrow> nat" where
  "webSearchCalls tr = length (filter (\<lambda>ev. case ev of WebSearchCall q \<Rightarrow> True | _ \<Rightarrow> False) tr)"

definition modelCalls :: "event list \<Rightarrow> nat" where
  "modelCalls tr = length (filter (\<lambda>ev. ev = ModelCall) tr)"

section \<open>Example inputs\<close>

text \<open>
  Two documents whose contents (and so their first 100 characters) coincide, the lower-scored
  one first; a document with neither content nor metadata; a world in which every stage before
  the fallback succeeds, with the retrieved documents, the web search's outcome and the model
  router's outcome left open (a polynomial stands in for the platform's sine).
\<close>

definition doc06 :: document where
  "doc06 = \<lparr>doc_id = Some ''a'', content = ''Paris is the capital of France.'',
            metadata = Some [(''title'', ''Paris'')], score = Some 0.6,
            doc_embedding = None\<rparr>"

definition doc09 :: document where
  "doc09 = \<lparr>doc_id = Some ''b'', content = ''Paris is the capital of France.'',
            metadata = Some [(''title'', ''France'')], score = Some 0.9,
            doc_embedding = None\<rparr>"

text \<open>
  Three documents for the deduplication: the first two share exactly their first 100 characters
  and differ after them, the lower-scored one first; the third shares only the first 99
  characters with them.
\<close>

definition long06 :: document where
  "long06 = \<lparr>doc_id = Some ''d'',
             content = ''Paris is the capital and most populous city of France; '' @
                       ''it lies on the Seine in the north of France, '' @
                       ''and has about two million inhabitants.'',
             metadata = None, score = Some 0.6, doc_embedding = None\<rparr>"

definition long09 :: document where
  "long09 = \<lparr>doc_id = Some ''e'',
             content = ''Paris is the capital and most populous city of France; '' @
                       ''it lies on the Seine in the north of France, '' @
                       ''and hosts the Louvre museum.'',
             metadata = None, score = Some 0.9, doc_embedding = None\<rparr>"

definition near07 :: document where
  "near07 = \<lparr>doc_id = Some ''f'',
             content = ''Paris is the capital and most populous city of France; '' @
                       ''it lies on the Seine in the north of France,'' @
                       ''. The Louvre is there.'',
             metadata = None, score = Some 0.7, doc_embedding = None\<rparr>"


definition exampleEnv :: environment where
  "exampleEnv =
     \<lparr>SUPABASE_URL = Some ''https://test-url.supabase.co'',
      SUPABASE_SERVICE_ROLE_KEY = Some ''test-key'',
      AWS_ACCESS_KEY_ID = None, AWS_SECRET_ACCESS_KEY = None,
      FIREWORKS_API_KEY = Some ''test-api-key'', BRAVE_SEARCH_API_KEY = None\<rparr>"

definition exampleWorld ::
  "document list \<Rightarrow> (exn + context_source context_result) \<Rightarrow> (exn + mcp_response) \<Rightarrow> world" where
  "exampleWorld docs web model =
     \<lparr>w_env = exampleEnv,
      w_sin = (\<lambda>x. x - x ^ 3 / 6),
      w_createClient = (\<lambda>url key. None),
      w_ragConfiguration = (\<lambda>aiInstanceId. Inr None),
      w_fireworksEmbeddings =
        (\<lambda>model text. Inr \<lparr>fw_ok = True, fw_status = 200, fw_errorData = [],
                           fw_json = Inr \<lparr>fw_embedding = Some [0.1, 0.2, 0.3],
                                         fw_total_tokens = Some 25\<rparr>\<rparr>),
      w_retrieveDocuments = (\<lambda>emb options. Inr docs),
      w_webSearch = (\<lambda>query aiInstanceId. web),
      w_routeModelCall = (\<lambda>request. model)\<rparr>"

definition exampleOptions :: provider_options where
  "exampleOptions =
     \<lparr>o_aiInstanceId = Some ''test-instance'', o_embeddingProvider = None,
      o_embeddingModel = None, o_maxChunks = None, o_similarityThreshold = None,
      o_maxTokens = None, o_filter = None\<rparr>"

definition exampleContextOptions :: "context_builder_options option" where
  "exampleContextOptions =
     Some \<lparr>maxContextLength = Given 4000, formatAsJson = Given False,
           includeMetadata = Given True, separator = Absent, deduplicate = Given True\<rparr>"

definition examplePrimary :: "document list \<Rightarrow> primary" where
  "examplePrimary docs =
     \<lparr>p_aiInstanceId = ''test-instance'',
      p_settings = resolveSettings None exampleOptions,
      p_contextResult = buildContext docs exampleContextOptions\<rparr>"

definition exampleWeb :: "context_source context_result" where
  "exampleWeb =
     \<lparr>context_str = ''This is a web search result for the query.'',
      sources = [\<lparr>cs_id = ''web-1'', cs_content = ''Example web search result snippet'',
                  cs_metadata = \<lparr>sm_source = ''web'', sm_url = ''https://example.com/result'',
                                 sm_title = ''Web Search Result'', sm_date = None\<rparr>\<rparr>],
      tokenCount = 20\<rparr>"

definition exampleResponse :: mcp_response where
  "exampleResponse =
     \<lparr>success = True, data_content = Some ''Summarized content from web search'',
      response_error = None,
      usage = Some \<lparr>contextTokens = Some 50, completionTokens = Some 30, totalTokens = Some 80\<rparr>\<rparr>"

definition failedResponse :: mcp_response where
  "failedResponse =
     \<lparr>success = False, data_content = None,
      response_error = Some ''No credentials found for provider fireworks'', usage = None\<rparr>"

text \<open>The example world without a Fireworks API key.\<close>

definition noKeyWorld :: world where
  "noKeyWorld =
     (exampleWorld [] (Inl Thrown) (Inl Thrown))
       \<lparr>w_env := exampleEnv\<lparr>FIREWORKS_API_KEY := None\<rparr>\<rparr>"

text \<open>The example world in which creating the client throws a value that is not an \<open>Error\<close>.\<close>

definition noClientWorld :: world where
  "noClientWorld =
     (exampleWorld [] (Inl Thrown) (Inl Thrown))\<lparr>w_createClient := (\<lambda>url key. Some Thrown)\<rparr>"

definition exampleBedrock :: bedrock_embedder where
  "exampleBedrock =
     \<lparr>b_modelId = ''amazon.titan-embed-text-v1'', b_region = ''us-east-1'',
      b_accessKeyId = ''test-aws-key'', b_secretAccessKey = ''test-aws-secret'',
      b_trackUsage = True\<rparr>"

text \<open>
  A Brave provider built in the example environment, which has no Brave API key, and a world
  whose web search is that provider.
\<close>

definition exampleBrave :: brave_search_provider where
  "exampleBrave = newBraveSearchProvider exampleEnv (\<lambda>query n. Inl Thrown)"

definition braveWorld :: world where
  "braveWorld =
     (exampleWorld [] (Inl Thrown) (Inr exampleResponse))
       \<lparr>w_webSearch := braveWebSearch exampleBrave\<rparr>"

section \<open>Notions used to state the properties\<close>

text \<open>A trace without a web search and without a model call.\<close>

definition quiet :: "event list \<Rightarrow> bool" where
  "quiet tr = (webSearchCalls tr = 0 \<and> modelCalls tr = 0)"


text \<open>
  The condition under which the \<open>try\<close> block of \<^verbatim>\<open>summarizeWebResults\<close> throws: the
  model router throws, reports no success, or delivers no content.
\<close>

definition summarizationFails :: "world \<Rightarrow> string \<Rightarrow> string \<Rightarrow> bool" where
  "summarizationFails w searchContext aiInstanceId =
     (case w_routeModelCall w (summarizationRequest searchContext aiInstanceId) of
        Inl e \<Rightarrow> True
      | Inr response \<Rightarrow> \<not> success response \<or> strOr (data_content response) [] = [])"

text \<open>
  The search endpoint did not deliver a readable answer: the fetch throws, the response is not
  ok, or its body cannot be read.
\<close>

definition braveApiFails :: "brave_search_provider \<Rightarrow> string \<Rightarrow> int \<Rightarrow> bool" where
  "braveApiFails self query n =
     (case searchApi self query n of
        Inl e \<Rightarrow> True
      | Inr response \<Rightarrow> \<not> bh_ok response \<or> isl (bh_json response))"

text \<open>The fixed sentence every diagnostic of the outer \<open>catch\<close> starts with.\<close>

definition diagnosticPrefix :: string where
  "diagnosticPrefix = ''Unable to retrieve contextual information from documents at this time. The RAG system encountered an error:''"

section \<open>ContextBuilder: what is emitted and how it is counted\<close>

lemma estimateTokens_div: "estimateTokens t = int ((length t + 3) div 4)"
  unfolding estimateTokens_def by (simp add: ceiling_unique)

lemma foldl_textStep_sources:
  "b_sourceDocuments (foldl (textStep mo) st ds) = b_sourceDocuments st @ ds"
  by (induction ds arbitrary: st) (simp_all add: textStep_def Let_def)


lemma foldl_jsonStep_sources:
  "b_sourceDocuments (fst (foldl (jsonStep mo) acc ds)) = b_sourceDocuments (fst acc) @ ds"
  by (induction ds arbitrary: acc) (simp_all add: jsonStep_def Let_def)


lemma sources_buildContext: "sources (buildContext docs opts) = emitted docs opts"
  by (simp add: buildContext_def emitted_def Let_def foldl_textStep_sources
      foldl_jsonStep_sources initialState_def)


lemma filter_dedupLoop:
  "filter (\<lambda>d. contentFingerprint d = f) (dedupLoop seen docs) =
     (if f \<in> seen then [] else take 1 (filter (\<lambda>d. contentFingerprint d = f) docs))"
  by (induction docs arbitrary: seen) auto

lemma sort_key_short: "length xs \<le> 1 \<Longrightarrow> sort_key k xs = xs"
  by (cases xs) auto

lemma emitted_Nil: "emitted docs opts = [] \<longleftrightarrow> docs = []"
proof -
  have d: "dedupLoop seen ds = [] \<longleftrightarrow> (\<forall>d\<in>set ds. contentFingerprint d \<in> seen)" for seen ds
    by (induction ds arbitrary: seen) auto
  have "deduplicateDocuments docs = [] \<longleftrightarrow> docs = []"
    using d[of "{}" docs] by (simp add: deduplicateDocuments_def)
  moreover have "sortByScore xs = [] \<longleftrightarrow> xs = []" for xs
    by (metis length_0_conv length_sort sortByScore_def)
  ultimately show ?thesis by (simp add: emitted_def)
qed

lemma sources_buildContext_Nil: "sources (buildContext docs opts) = [] \<longleftrightarrow> docs = []"
  by (simp add: sources_buildContext emitted_Nil)






lemma mergeOptions_contextOptionsOf:
  "\<not> m_formatAsJson (mergeOptions (Some (contextOptionsOf st)))"
  "m_includeMetadata (mergeOptions (Some (contextOptionsOf st)))"
  by (simp_all add: mergeOptions_def contextOptionsOf_def)

lemma buildContext_text_no_sources:
  assumes "\<not> m_formatAsJson (mergeOptions co)" and "sources (buildContext docs co) = []"
  shows "buildContext docs co = \<lparr>context_str = [], sources = [], tokenCount = 0\<rparr>"
proof -
  from assms(2) have "docs = []" by (simp add: sources_buildContext_Nil)
  with assms(1) show ?thesis
    by (simp add: buildContext_def Let_def deduplicateDocuments_def sortByScore_def
        initialState_def)
qed

lemma buildContext_pair:
  "buildContext [doc06, doc09] exampleContextOptions =
     \<lparr>context_str = ''[title: Paris]'' @ [CHR 0x0A] @ ''Paris is the capital of France.'',
      sources = [doc06], tokenCount = 8\<rparr>"
  by (simp add: buildContext_def exampleContextOptions_def mergeOptions_def
      deduplicateDocuments_def sortByScore_def initialState_def Let_def textStep_def
      metadataStr_def doc06_def doc09_def estimateTokens_def contentFingerprint_def)


lemma buildContext_no_documents:
  "buildContext [] exampleContextOptions = \<lparr>context_str = [], sources = [], tokenCount = 0\<rparr>"
  by (simp add: buildContext_def exampleContextOptions_def mergeOptions_def
      deduplicateDocuments_def sortByScore_def initialState_def Let_def)

lemma emitted_long: "emitted [long06, long09, near07] None = [near07, long06]"
  by (simp add: emitted_def mergeOptions_def defaultOptions_def deduplicateDocuments_def
      contentFingerprint_def long06_def long09_def near07_def sortByScore_def scoreOrZero_def)

text \<open>
  C6. With \<open>deduplicate\<close> on, the documents of the input whose contents have the same first
  100 characters leave exactly one document among the sources of \<^const>\<open>buildContext\<close>: the
  first of them in input order, whatever the scores. For every string \<open>f\<close>, the sources whose
  content starts, in its first 100 characters, as \<open>f\<close> are the first input document of which
  that holds, if there is one, and nothing else.
\<close>

theorem dedup_keeps_first_of_each_fingerprint:
  "m_deduplicate (mergeOptions opts) \<Longrightarrow>
   filter (\<lambda>d. take 100 (content d) = f) (sources (buildContext docs opts)) =
     take 1 (filter (\<lambda>d. take 100 (content d) = f) docs)"
  using filter_dedupLoop [of f "{}" docs]
  by (simp add: sources_buildContext emitted_def sortByScore_def filter_sort
      deduplicateDocuments_def sort_key_short contentFingerprint_def)

text \<open>
  The scenario of the claim: input order [0.6-document, 0.9-document, 0.7-document]; the first
  two are 138 and 128 characters long, differ, and share their first 100 characters, and the
  third shares only 99 characters with them. Of the first two only the 0.6-document is emitted,
  and the third is emitted as well.
\<close>

theorem dedup_keeps_first_of_each_fingerprint_witness:
  "m_deduplicate (mergeOptions None) \<and>
   filter (\<lambda>d. take 100 (content d) =
       ''Paris is the capital and most populous city of France; '' @
       ''it lies on the Seine in the north of France, '')
     (sources (buildContext [long06, long09, near07] None)) = [long06] \<and>
   sources (buildContext [long06, long09, near07] None) = [near07, long06] \<and>
   length (content long06) = 138 \<and> length (content long09) = 128 \<and>
   content long06 \<noteq> content long09 \<and>
   take 100 (content long06) = take 100 (content long09) \<and>
   take 99 (content near07) = take 99 (content long06) \<and>
   take 100 (content near07) \<noteq> take 100 (content long06) \<and>
   score long06 = Some 0.6 \<and> score long09 = Some 0.9 \<and> score near07 = Some 0.7"
proof -
  have h: "m_deduplicate (mergeOptions None)"
    by (simp add: mergeOptions_def defaultOptions_def)
  have "filter (\<lambda>d. take 100 (content d) =
            ''Paris is the capital and most populous city of France; '' @
            ''it lies on the Seine in the north of France, '')
          (sources (buildContext [long06, long09, near07] None)) =
        take 1 (filter (\<lambda>d. take 100 (content d) =
            ''Paris is the capital and most populous city of France; '' @
            ''it lies on the Seine in the north of France, '')
          [long06, long09, near07])"
    by (rule dedup_keeps_first_of_each_fingerprint [OF h])
  also have "\<dots> = [long06]"
    by (simp add: long06_def long09_def near07_def)
  finally have c: "filter (\<lambda>d. take 100 (content d) =
            ''Paris is the capital and most populous city of France; '' @
            ''it lies on the Seine in the north of France, '')
          (sources (buildContext [long06, long09, near07] None)) = [long06]" .
  have d: "sources (buildContext [long06, long09, near07] None) = [near07, long06]"
    by (simp add: sources_buildContext emitted_long)
  have e: "length (content long06) = 138" "length (content long09) = 128"
      "content long06 \<noteq> content long09"
      "take 100 (content long06) = take 100 (content long09)"
      "take 99 (content near07) = take 99 (content long06)"
      "take 100 (content near07) \<noteq> take 100 (content long06)"
      "score long06 = Some 0.6" "score long09 = Some 0.9" "score near07 = Some 0.7"
    by (simp_all add: long06_def long09_def near07_def)
  from h c d e show ?thesis by (intro conjI)
qed


section \<open>Sequencing and traces\<close>

lemma fst_andThen:
  "fst (andThen m f) = (case fst m of Inl e \<Rightarrow> Inl e | Inr a \<Rightarrow> fst (f a))"
  by (simp add: andThen_def split: sum.splits)

lemma snd_andThen:
  "snd (andThen m f) = (case fst m of Inl e \<Rightarrow> snd m | Inr a \<Rightarrow> snd m @ snd (f a))"
  by (simp add: andThen_def split: sum.splits)

lemma fst_rethrow:
  "fst (rethrow pre m) = (case fst m of Inl e \<Rightarrow> Inl (Error (pre @ errorText e)) | Inr a \<Rightarrow> Inr a)"
  by (simp add: rethrow_def split: sum.splits)

lemma snd_rethrow: "snd (rethrow pre m) = snd m"
  by (simp add: rethrow_def split: sum.splits)

lemma quiet_Nil: "quiet []"
  by (simp add: quiet_def webSearchCalls_def modelCalls_def)

lemma quiet_append: "quiet (a @ b) = (quiet a \<and> quiet b)"
  by (auto simp: quiet_def webSearchCalls_def modelCalls_def)

lemma quiet_andThen:
  "quiet (snd m) \<Longrightarrow> (\<And>a. quiet (snd (f a))) \<Longrightarrow> quiet (snd (andThen m f))"
  by (simp add: snd_andThen quiet_append split: sum.splits)

lemma quiet_trackEmbeddingUsage: "quiet (trackEmbeddingUsage w a p m n)"
  by (simp add: trackEmbeddingUsage_def Let_def quiet_def webSearchCalls_def modelCalls_def
      split: option.splits)

lemma quiet_bedrock: "quiet (snd (bedrockGenerateEmbedding w self t a))"
  by (simp add: bedrockGenerateEmbedding_def snd_rethrow bedrockTry_def throws_def Let_def
      quiet_Nil quiet_trackEmbeddingUsage)

lemma quiet_FireworksRequest: "quiet [FireworksRequest]"
  by (simp add: quiet_def webSearchCalls_def modelCalls_def)

lemma quiet_fireworksTry: "quiet (snd (fireworksTry w self t a))"
proof (cases "f_apiKey self = []")
  case True
  then show ?thesis by (simp add: fireworksTry_def throws_def quiet_Nil)
next
  case False
  then show ?thesis
    unfolding fireworksTry_def Let_def
    apply (simp only: if_False)
    apply (rule quiet_andThen)
     apply (simp add: quiet_FireworksRequest split: sum.splits)
    apply (simp add: throws_def quiet_Nil quiet_trackEmbeddingUsage split: sum.splits option.splits)
    done
qed

lemma quiet_fireworks: "quiet (snd (fireworksGenerateEmbedding w self t a))"
  by (simp add: fireworksGenerateEmbedding_def snd_rethrow quiet_fireworksTry)

lemma quiet_generateEmbedding: "quiet (snd (generateEmbedding w p t a))"
  by (simp add: generateEmbedding_def quiet_bedrock quiet_fireworks split: embedding_provider.splits)

lemma quiet_embedQuery: "quiet (snd (embedQuery w st q a))"
  unfolding embedQuery_def snd_rethrow
  by (intro quiet_andThen) (simp_all add: quiet_Nil quiet_generateEmbedding returns_def)

lemma quiet_generateContext: "quiet (snd (generateContext w e ro co))"
  unfolding generateContext_def
  by (intro quiet_andThen)
     (simp_all add: returns_def quiet_def webSearchCalls_def modelCalls_def split: sum.splits)

lemma quiet_primaryStage: "quiet (snd (primaryStage w q opts))"
  unfolding primaryStage_def Let_def
  by (intro quiet_andThen)
     (simp_all add: returns_def throws_def quiet_Nil quiet_embedQuery quiet_generateContext
        split: option.splits sum.splits)

lemma modelCalls_append: "modelCalls (a @ b) = modelCalls a + modelCalls b"
  by (simp add: modelCalls_def)

lemma webSearchCalls_append: "webSearchCalls (a @ b) = webSearchCalls a + webSearchCalls b"
  by (simp add: webSearchCalls_def)

lemma modelCalls_Cons: "modelCalls (ev # tr) = (if ev = ModelCall then 1 else 0) + modelCalls tr"
  by (simp add: modelCalls_def)

lemma modelCalls_Nil: "modelCalls [] = 0"
  by (simp add: modelCalls_def)

lemma webSearchCalls_Cons:
  "webSearchCalls (ev # tr) =
     (case ev of WebSearchCall q \<Rightarrow> 1 | _ \<Rightarrow> 0) + webSearchCalls tr"
  by (simp add: webSearchCalls_def split: event.splits)

lemma webSearchCalls_Nil: "webSearchCalls [] = 0"
  by (simp add: webSearchCalls_def)

lemma calls_trackSummarizationUsage:
  "modelCalls (trackSummarizationUsage w a tu) = 0"
  "webSearchCalls (trackSummarizationUsage w a tu) = 0"
  by (simp_all add: trackSummarizationUsage_def modelCalls_def webSearchCalls_def split: option.splits)


section \<open>The context provider: helper facts\<close>

lemma getContext_returns: "\<exists>r. fst (getContext w q opts) = Inr r"
  by (simp add: getContext_def split: sum.splits)

lemma getContextTry_Inl:
  "fst (getContextTry w q opts) = Inl e \<longleftrightarrow> fst (primaryStage w q opts) = Inl e"
  by (auto simp: getContextTry_def fst_andThen returns_def split: sum.splits option.splits)

lemma primaryStage_Inr:
  assumes "options = Some opts" and "strOr (o_aiInstanceId opts) [] = a" and "a \<noteq> []"
    and "w_createClient w (supabaseUrl w) (supabaseKey w) = None"
    and "w_ragConfiguration w a = Inr cfg"
    and "fst (embedQuery w (resolveSettings cfg opts) q a) = Inr emb"
    and "w_retrieveDocuments w emb (retrievalOptionsOf a (resolveSettings cfg opts) opts) = Inr docs"
  shows "fst (primaryStage w q options) =
     Inr \<lparr>p_aiInstanceId = a, p_settings = resolveSettings cfg opts,
          p_contextResult = buildContext docs (Some (contextOptionsOf (resolveSettings cfg opts)))\<rparr>"
  using assms
  by (simp add: primaryStage_def fst_andThen returns_def Let_def generateContext_def)

lemma primaryStage_built:
  "fst (primaryStage w q opts) = Inr p \<Longrightarrow>
   \<exists>docs. p_contextResult p = buildContext docs (Some (contextOptionsOf (p_settings p)))"
  by (auto simp: primaryStage_def fst_andThen returns_def throws_def Let_def generateContext_def
      split: option.splits sum.splits if_splits)

lemma primary_miss_is_empty:
  assumes "fst (primaryStage w q opts) = Inr p" and "sources (p_contextResult p) = []"
  shows "documentResult (p_contextResult p) = \<lparr>context_str = [], sources = [], tokenCount = 0\<rparr>"
proof -
  from primaryStage_built[OF assms(1)] obtain docs where
    d: "p_contextResult p = buildContext docs (Some (contextOptionsOf (p_settings p)))" by blast
  from assms(2) have "p_contextResult p = \<lparr>context_str = [], sources = [], tokenCount = 0\<rparr>"
    unfolding d by (rule buildContext_text_no_sources[OF mergeOptions_contextOptionsOf(1)])
  then show ?thesis by (simp add: documentResult_def)
qed

text \<open>
  The primary stage raises exactly when the options are missing, the instance id is missing
  or empty, the client cannot be created, loading the configuration throws, the embedding
  fails, or the retrieval throws; the exception is the one of the first of these that occurs.
\<close>

lemma primaryStage_raises:
  "fst (primaryStage w q options) = Inl e \<longleftrightarrow>
     (options = None \<and> e = Error ''Cannot read properties of undefined (reading 'aiInstanceId')'') \<or>
     (\<exists>opts. options = Some opts \<and>
        (strOr (o_aiInstanceId opts) [] = [] \<and> e = Error ''aiInstanceId is required'' \<or>
         strOr (o_aiInstanceId opts) [] \<noteq> [] \<and>
         (w_createClient w (supabaseUrl w) (supabaseKey w) = Some e \<or>
          w_createClient w (supabaseUrl w) (supabaseKey w) = None \<and>
          (w_ragConfiguration w (strOr (o_aiInstanceId opts) []) = Inl e \<or>
           (\<exists>cfg. w_ragConfiguration w (strOr (o_aiInstanceId opts) []) = Inr cfg \<and>
              (fst (embedQuery w (resolveSettings cfg opts) q (strOr (o_aiInstanceId opts) [])) = Inl e \<or>
               (\<exists>emb. fst (embedQuery w (resolveSettings cfg opts) q (strOr (o_aiInstanceId opts) [])) = Inr emb \<and>
                  w_retrieveDocuments w emb
                    (retrievalOptionsOf (strOr (o_aiInstanceId opts) []) (resolveSettings cfg opts) opts) = Inl e)))))))"
  by (auto simp: primaryStage_def fst_andThen returns_def throws_def Let_def generateContext_def
      split: option.splits sum.splits)

lemma getContext_hit:
  assumes "fst (primaryStage w q opts) = Inr p" and "sources (p_contextResult p) \<noteq> []"
  shows "fst (getContext w q opts) = Inr (documentResult (p_contextResult p))"
    and "webSearchCalls (snd (getContext w q opts)) = 0"
    and "modelCalls (snd (getContext w q opts)) = 0"
proof -
  have t: "getContextTry w q opts =
      (Inr (documentResult (p_contextResult p)), snd (primaryStage w q opts))"
    using assms by (simp add: getContextTry_def andThen_def returns_def)
  have qp: "quiet (snd (primaryStage w q opts))" by (rule quiet_primaryStage)
  show "fst (getContext w q opts) = Inr (documentResult (p_contextResult p))"
    by (simp add: getContext_def t)
  show "webSearchCalls (snd (getContext w q opts)) = 0"
    using qp by (simp add: getContext_def t quiet_def)
  show "modelCalls (snd (getContext w q opts)) = 0"
    using qp by (simp add: getContext_def t quiet_def)
qed

lemma summarizeWebResults_ok:
  assumes "w_routeModelCall w (summarizationRequest sc a) = Inr response"
    and "success response" and "data_content response = Some c" and "c \<noteq> []"
  shows "summarizeWebResults w sc a =
     (\<lparr>summary = c @ disclaimer,
       tokenUsage = \<lparr>uc_contextTokens = intOr (usageField response contextTokens) 0,
                     uc_completionTokens = intOr (usageField response completionTokens) 0,
                     uc_totalTokens = intOr (usageField response totalTokens) 0\<rparr>\<rparr>, [ModelCall])"
  using assms
  by (simp add: summarizeWebResults_def summarizeTry_def fst_andThen snd_andThen returns_def strOr_def)

lemma summarizeWebResults_failed:
  assumes "summarizationFails w sc a"
  shows "summarizeWebResults w sc a = (summaryFailure, [ModelCall])"
  using assms
  by (auto simp: summarizationFails_def summarizeWebResults_def summarizeTry_def fst_andThen
      snd_andThen throws_def split: sum.splits)



lemma getContext_fallback:
  assumes "fst (primaryStage w q opts) = Inr p"
    and "sources (p_contextResult p) = []"
    and "s_enableFallbackSearch (p_settings p)"
    and "w_webSearch w q (p_aiInstanceId p) = Inr b" and "context_str b \<noteq> []"
    and "summarizeWebResults w (context_str b) (p_aiInstanceId p) = (s, [ModelCall])"
  shows "fst (getContext w q opts) =
           Inr \<lparr>context_str = summary s, sources = map WebSource (sources b),
                tokenCount = uc_totalTokens (tokenUsage s)\<rparr>"
    and "modelCalls (snd (getContext w q opts)) = 1"
    and "webSearchCalls (snd (getContext w q opts)) = 1"
proof -
  have f: "fallbackTry w q p =
      (Inr (Some \<lparr>context_str = summary s, sources = map WebSource (sources b),
                tokenCount = uc_totalTokens (tokenUsage s)\<rparr>),
       [WebSearchCall q, ModelCall] @
         (if s_trackTokenUsage (p_settings p)
          then trackSummarizationUsage w (p_aiInstanceId p) (tokenUsage s) else []))"
    using assms(4-6) by (simp add: fallbackTry_def andThen_def Let_def)
  have t: "getContextTry w q opts =
      (Inr \<lparr>context_str = summary s, sources = map WebSource (sources b),
                tokenCount = uc_totalTokens (tokenUsage s)\<rparr>,
       snd (primaryStage w q opts) @ [WebSearchCall q, ModelCall] @
         (if s_trackTokenUsage (p_settings p)
          then trackSummarizationUsage w (p_aiInstanceId p) (tokenUsage s) else []))"
    using assms(1-3) by (simp add: getContextTry_def andThen_def f)
  have qp: "quiet (snd (primaryStage w q opts))" by (rule quiet_primaryStage)
  show "fst (getContext w q opts) =
           Inr \<lparr>context_str = summary s, sources = map WebSource (sources b),
                tokenCount = uc_totalTokens (tokenUsage s)\<rparr>"
    by (simp add: getContext_def t)
  show "modelCalls (snd (getContext w q opts)) = 1"
    using qp by (simp add: getContext_def t modelCalls_append modelCalls_Cons modelCalls_Nil
        calls_trackSummarizationUsage quiet_def)
  show "webSearchCalls (snd (getContext w q opts)) = 1"
    using qp by (simp add: getContext_def t webSearchCalls_append webSearchCalls_Cons
        webSearchCalls_Nil calls_trackSummarizationUsage quiet_def)
qed

lemma getContext_web_throws:
  assumes "fst (primaryStage w q opts) = Inr p"
    and "sources (p_contextResult p) = []"
    and "s_enableFallbackSearch (p_settings p)"
    and "w_webSearch w q (p_aiInstanceId p) = Inl e"
  shows "fst (getContext w q opts) = Inr (documentResult (p_contextResult p))"
  using assms
  by (simp add: getContext_def getContextTry_def fst_andThen fallbackTry_def)



subsection \<open>The trimmed diagnostic\<close>

lemma dropWhile_all: "\<forall>c\<in>set xs. P c \<Longrightarrow> dropWhile P (xs @ ys) = dropWhile P ys"
  by (induction xs) auto

lemma dropWhile_keeps: "\<exists>c\<in>set s. \<not> P c \<Longrightarrow> \<exists>c\<in>set (dropWhile P s). \<not> P c"
  by (induction s) auto

lemma trim_nonempty:
  assumes "\<exists>c\<in>set s. \<not> isWhitespace c"
  shows "trim s \<noteq> []"
proof -
  from dropWhile_keeps[OF assms]
  have "\<exists>c\<in>set (rev (dropWhile isWhitespace s)). \<not> isWhitespace c" by simp
  from dropWhile_keeps[OF this]
  have "dropWhile isWhitespace (rev (dropWhile isWhitespace s)) \<noteq> []"
    by (auto simp del: dropWhile_eq_Nil_conv)
  then show ?thesis by (simp add: trim_def)
qed

lemma trim_leading:
  assumes "\<forall>c\<in>set l. isWhitespace c" and "\<not> isWhitespace a"
  shows "trim (l @ a # xs) \<noteq> []"
  by (rule trim_nonempty) (use assms in auto)

lemma trim_padded:
  assumes "\<forall>c\<in>set l. isWhitespace c" and "\<forall>c\<in>set r. isWhitespace c"
    and "\<not> isWhitespace a"
  shows "trim (l @ a # xs @ r) = a # rev (dropWhile isWhitespace (rev xs))"
proof -
  have 1: "dropWhile isWhitespace (l @ a # xs @ r) = a # xs @ r"
    using assms(1,3) by (simp add: dropWhile_all)
  have 2: "rev (a # xs @ r) = rev r @ rev xs @ [a]" by simp
  have 3: "dropWhile isWhitespace (rev r @ rev xs @ [a]) = dropWhile isWhitespace (rev xs @ [a])"
    using assms(2) by (simp add: dropWhile_all)
  have 4: "dropWhile isWhitespace (rev xs @ [a]) = dropWhile isWhitespace (rev xs) @ [a]"
    using assms(3) by (induction "rev xs" arbitrary: xs) (auto simp: dropWhile_append)
  show ?thesis unfolding trim_def 1 2 3 4 by simp
qed

lemma errorMessage_prefix:
  "errorMessage e = diagnosticPrefix @
      rev (dropWhile isWhitespace (rev ('' '' @ errorText e)))"
proof -
  have n: "\<not> isWhitespace CHR ''U''" "\<not> isWhitespace CHR '':''" by (simp_all add: isWhitespace_def)
  have w: "\<forall>c\<in>set nl. isWhitespace c" "\<forall>c\<in>set (nl @ ''      ''). isWhitespace c"
    by (simp_all add: nl_def isWhitespace_def)
  have "errorMessage e = trim (nl @ CHR ''U'' # (tl diagnosticPrefix @ '' '' @ errorText e) @ (nl @ ''      ''))"
    by (simp add: errorMessage_def diagnosticPrefix_def)
  also have "\<dots> = CHR ''U'' # rev (dropWhile isWhitespace (rev (tl diagnosticPrefix @ '' '' @ errorText e)))"
    by (rule trim_padded[OF w n(1)])
  also have "rev (tl diagnosticPrefix @ '' '' @ errorText e) = rev ('' '' @ errorText e) @ rev (tl diagnosticPrefix)"
    by simp
  also have "dropWhile isWhitespace (rev ('' '' @ errorText e) @ rev (tl diagnosticPrefix)) =
      dropWhile isWhitespace (rev ('' '' @ errorText e)) @ rev (tl diagnosticPrefix)"
  proof (cases "\<forall>c\<in>set (rev ('' '' @ errorText e)). isWhitespace c")
    case True
    then have "dropWhile isWhitespace (rev ('' '' @ errorText e)) = []" by simp
    moreover have "dropWhile isWhitespace (rev (tl diagnosticPrefix)) = rev (tl diagnosticPrefix)"
      using n(2) by (simp add: diagnosticPrefix_def)
    ultimately show ?thesis using True by (simp only: dropWhile_all append_Nil)
  next
    case False
    then show ?thesis by (subst dropWhile_append) auto
  qed
  finally show ?thesis by (simp add: diagnosticPrefix_def)
qed

subsection \<open>The example world\<close>

lemma toLowerCase_fireworks: "toLowerCase ''fireworks'' = ''fireworks''"
  by (simp add: toLowerCase_def toLowerChar_def)

lemma embedQuery_example:
  "fst (embedQuery (exampleWorld docs web model) (resolveSettings None opts) q a) = Inr [0.1, 0.2, 0.3]"
  if "o_embeddingProvider opts = None" "o_embeddingModel opts = None"
  using that
  by (simp add: embedQuery_def fst_rethrow fst_andThen resolveSettings_def configField_def strOr_def
      createEmbeddingProvider_def toLowerCase_fireworks newFireworksEmbedder_def generateEmbedding_def
      fireworksGenerateEmbedding_def fireworksTry_def exampleWorld_def exampleEnv_def returns_def
      trackUsageOf_def Let_def)

lemma exampleSettings:
  "s_enableFallbackSearch (resolveSettings None exampleOptions)"
  "s_trackTokenUsage (resolveSettings None exampleOptions)"
  "Some (contextOptionsOf (resolveSettings None exampleOptions)) = exampleContextOptions"
  by (simp_all add: contextOptionsOf_def resolveSettings_def exampleContextOptions_def
      exampleOptions_def natOr_def boolOr_def configField_def)

lemma exampleWorld_sel:
  "w_webSearch (exampleWorld docs web model) q a = web"
  "w_routeModelCall (exampleWorld docs web model) r = model"
  "w_retrieveDocuments (exampleWorld docs web model) emb ro = Inr docs"
  by (simp_all add: exampleWorld_def)

lemma primaryStage_example:
  "fst (primaryStage (exampleWorld docs web model) q (Some exampleOptions)) =
     Inr (examplePrimary docs)"
proof -
  have "fst (primaryStage (exampleWorld docs web model) q (Some exampleOptions)) =
     Inr \<lparr>p_aiInstanceId = ''test-instance'',
          p_settings = resolveSettings None exampleOptions,
          p_contextResult = buildContext docs (Some (contextOptionsOf (resolveSettings None exampleOptions)))\<rparr>"
    apply (rule primaryStage_Inr[where emb = "[0.1, 0.2, 0.3]"])
          apply simp
         apply (simp add: exampleOptions_def strOr_def)
        apply simp
       apply (simp add: exampleWorld_def)
      apply (simp add: exampleWorld_def)
     apply (rule embedQuery_example; simp add: exampleOptions_def)
    apply (simp add: exampleWorld_def)
    done
  then show ?thesis by (simp add: exampleSettings examplePrimary_def)
qed

lemma examplePrimary_empty:
  "sources (p_contextResult (examplePrimary [])) = []"
  "s_enableFallbackSearch (p_settings (examplePrimary []))"
  "p_aiInstanceId (examplePrimary []) = ''test-instance''"
  "documentResult (p_contextResult (examplePrimary [])) =
     \<lparr>context_str = [], sources = [], tokenCount = 0\<rparr>"
  by (simp_all add: examplePrimary_def buildContext_no_documents exampleSettings documentResult_def)


lemma getContext_no_documents_web_throws:
  "fst (getContext (exampleWorld [] (Inl e) model) q (Some exampleOptions)) =
     Inr \<lparr>context_str = [], sources = [], tokenCount = 0\<rparr>"
  using getContext_web_throws[OF primaryStage_example examplePrimary_empty(1,2)]
  by (simp add: exampleWorld_sel examplePrimary_empty)

lemma getContext_summarization_failed_example:
  assumes "summarizationFails (exampleWorld [] (Inr exampleWeb) model) (context_str exampleWeb)
             ''test-instance''"
  shows "fst (getContext (exampleWorld [] (Inr exampleWeb) model) q (Some exampleOptions)) =
     Inr \<lparr>context_str = ''Unable to summarize web search results due to an error.'',
          sources = map WebSource (sources exampleWeb), tokenCount = 0\<rparr>"
proof -
  have "summarizeWebResults (exampleWorld [] (Inr exampleWeb) model)
      (context_str exampleWeb) (p_aiInstanceId (examplePrimary [])) = (summaryFailure, [ModelCall])"
    by (rule summarizeWebResults_failed) (simp add: assms examplePrimary_empty)
  from getContext_fallback(1)[OF primaryStage_example examplePrimary_empty(1,2) _ _ this]
  show ?thesis
    by (simp add: exampleWorld_sel examplePrimary_empty exampleWeb_def summaryFailure_def)
qed

lemma primaryStage_noKey:
  "fst (primaryStage noKeyWorld ''Test query'' (Some exampleOptions)) =
     Inl (Error ''Failed to generate embedding: Failed to generate embedding with Fireworks: Fireworks API key is required for embedding generation'')"
proof -
  have e: "fst (embedQuery noKeyWorld (resolveSettings None exampleOptions) ''Test query'' ''test-instance'') =
     Inl (Error ''Failed to generate embedding: Failed to generate embedding with Fireworks: Fireworks API key is required for embedding generation'')"
    by (simp add: embedQuery_def fst_rethrow fst_andThen resolveSettings_def configField_def strOr_def
      createEmbeddingProvider_def toLowerCase_fireworks newFireworksEmbedder_def generateEmbedding_def
      fireworksGenerateEmbedding_def fireworksTry_def noKeyWorld_def exampleWorld_def exampleEnv_def
      exampleOptions_def throws_def errorText_def trackUsageOf_def Let_def)
  have c: "w_createClient noKeyWorld u k = None" "w_ragConfiguration noKeyWorld a = Inr None" for u k a
    by (simp_all add: noKeyWorld_def exampleWorld_def)
  have i: "strOr (o_aiInstanceId exampleOptions) [] = ''test-instance''"
    by (simp add: exampleOptions_def strOr_def)
  show ?thesis
    by (simp add: primaryStage_def fst_andThen returns_def Let_def c e i)
qed


lemma primaryStage_noClient:
  "fst (primaryStage noClientWorld q (Some exampleOptions)) = Inl Thrown"
  by (simp add: primaryStage_def fst_andThen throws_def returns_def Let_def noClientWorld_def
      exampleWorld_def exampleOptions_def strOr_def)

lemma summarizationFails_spelled:
  "summarizationFails w searchContext a \<longleftrightarrow>
     (\<exists>e. w_routeModelCall w (summarizationRequest searchContext a) = Inl e) \<or>
     (\<exists>response. w_routeModelCall w (summarizationRequest searchContext a) = Inr response \<and>
        (\<not> success response \<or> data_content response = None \<or> data_content response = Some []))"
  by (auto simp: summarizationFails_def strOr_def split: sum.splits option.splits if_splits)

section \<open>The context provider: properties\<close>

text \<open>
  C5. Whenever the primary retrieve-and-build stage of \<^const>\<open>getContext\<close> produces a
  result with at least one source, and in particular whenever that result was built from a
  non-empty list of retrieved documents (deduplicating a non-empty list leaves it non-empty),
  \<^const>\<open>getContext\<close> returns that result at once, with the same context, the same sources
  (each one a retrieved document) and the same token count, and the web search is called zero
  times.
\<close>

theorem hit_returns_without_web_search:
  assumes "fst (primaryStage w q opts) = Inr p"
    and "sources (p_contextResult p) \<noteq> [] \<or>
         (\<exists>docs co. docs \<noteq> [] \<and> p_contextResult p = buildContext docs co)"
  shows "fst (getContext w q opts) =
           Inr \<lparr>context_str = context_str (p_contextResult p),
                sources = map DocumentSource (sources (p_contextResult p)),
                tokenCount = tokenCount (p_contextResult p)\<rparr> \<and>
         webSearchCalls (snd (getContext w q opts)) = 0"
proof -
  from assms(2) have "sources (p_contextResult p) \<noteq> []"
    by (auto simp: sources_buildContext_Nil)
  with assms(1) show ?thesis by (simp add: getContext_hit documentResult_def)
qed

text \<open>
  Two retrieved documents with the same content: the primary stage emits the first of them,
  and \<^const>\<open>getContext\<close> returns its metadata line and content, that one document as the
  only source and 8 tokens, without a web search.
\<close>

theorem hit_returns_without_web_search_witness:
  "fst (primaryStage (exampleWorld [doc06, doc09] (Inl Thrown) (Inl Thrown)) ''What is Paris?''
          (Some exampleOptions)) = Inr (examplePrimary [doc06, doc09]) \<and>
   p_contextResult (examplePrimary [doc06, doc09]) =
     \<lparr>context_str = ''[title: Paris]'' @ [CHR 0x0A] @ ''Paris is the capital of France.'',
      sources = [doc06], tokenCount = 8\<rparr> \<and>
   fst (getContext (exampleWorld [doc06, doc09] (Inl Thrown) (Inl Thrown)) ''What is Paris?''
          (Some exampleOptions)) =
     Inr \<lparr>context_str = ''[title: Paris]'' @ [CHR 0x0A] @ ''Paris is the capital of France.'',
          sources = [DocumentSource
            \<lparr>doc_id = Some ''a'', content = ''Paris is the capital of France.'',
             metadata = Some [(''title'', ''Paris'')], score = Some 0.6,
             doc_embedding = None\<rparr>],
          tokenCount = 8\<rparr> \<and>
   webSearchCalls (snd (getContext (exampleWorld [doc06, doc09] (Inl Thrown) (Inl Thrown))
          ''What is Paris?'' (Some exampleOptions))) = 0"
proof -
  have b: "p_contextResult (examplePrimary [doc06, doc09]) =
     \<lparr>context_str = ''[title: Paris]'' @ [CHR 0x0A] @ ''Paris is the capital of France.'',
      sources = [doc06], tokenCount = 8\<rparr>"
    by (simp add: examplePrimary_def buildContext_pair)
  then have "sources (p_contextResult (examplePrimary [doc06, doc09])) \<noteq> [] \<or>
         (\<exists>docs co. docs \<noteq> [] \<and>
            p_contextResult (examplePrimary [doc06, doc09]) = buildContext docs co)"
    by simp
  from hit_returns_without_web_search [OF primaryStage_example this] b show ?thesis
    by (simp add: primaryStage_example doc06_def)
qed

text \<open>
  C8. When the primary stage ends with no source (retrieval yields 0 documents), fallback
  search is enabled, the web search returns a result with text, and the summarization call
  succeeds with content: the model router is called exactly once, the sources of the result
  are the web search's sources unchanged (each wrapped as a web source), the token count is
  the \<open>totalTokens\<close> of the summarization usage (0 when the response reports none), and the
  context is the summary followed by an empty line and the sentence in parentheses that the
  information is from web search results and may not be fully accurate.
\<close>

theorem web_summary_result:
  assumes "fst (primaryStage w q opts) = Inr p"
    and "sources (p_contextResult p) = []"
    and "s_enableFallbackSearch (p_settings p)"
    and "w_webSearch w q (p_aiInstanceId p) = Inr b" and "context_str b \<noteq> []"
    and "w_routeModelCall w (summarizationRequest (context_str b) (p_aiInstanceId p)) = Inr response"
    and "success response" and "data_content response = Some c" and "c \<noteq> []"
  shows "fst (getContext w q opts) =
           Inr \<lparr>context_str = c @ [CHR 0x0A, CHR 0x0A] @
                  ''(This information is from web search results and may not be fully accurate. Refer to the original sources for verification.)'',
                sources = map WebSource (sources b),
                tokenCount = intOr (usageField response totalTokens) 0\<rparr> \<and>
         modelCalls (snd (getContext w q opts)) = 1 \<and>
         webSearchCalls (snd (getContext w q opts)) = 1 \<and>
         (\<forall>n. usageField response totalTokens = Some n \<longrightarrow>
              intOr (usageField response totalTokens) 0 = n)"
  using getContext_fallback[OF assms(1-5) summarizeWebResults_ok[OF assms(6-9)]]
  by (simp add: intOr_def disclaimer_def nl_def)

theorem web_summary_result_witness:
  "fst (getContext (exampleWorld [] (Inr exampleWeb) (Inr exampleResponse)) ''Test query''
          (Some exampleOptions)) =
     Inr \<lparr>context_str = ''Summarized content from web search'' @ [CHR 0x0A, CHR 0x0A] @
            ''(This information is from web search results and may not be fully accurate. Refer to the original sources for verification.)'',
          sources =
            [WebSource \<lparr>cs_id = ''web-1'', cs_content = ''Example web search result snippet'',
               cs_metadata = \<lparr>sm_source = ''web'', sm_url = ''https://example.com/result'',
                              sm_title = ''Web Search Result'', sm_date = None\<rparr>\<rparr>],
          tokenCount = 80\<rparr> \<and>
   sources exampleWeb =
     [\<lparr>cs_id = ''web-1'', cs_content = ''Example web search result snippet'',
       cs_metadata = \<lparr>sm_source = ''web'', sm_url = ''https://example.com/result'',
                      sm_title = ''Web Search Result'', sm_date = None\<rparr>\<rparr>] \<and>
   usageField exampleResponse totalTokens = Some 80 \<and>
   modelCalls (snd (getContext (exampleWorld [] (Inr exampleWeb) (Inr exampleResponse))
          ''Test query'' (Some exampleOptions))) = 1"
proof -
  have "fst (getContext (exampleWorld [] (Inr exampleWeb) (Inr exampleResponse)) ''Test query''
          (Some exampleOptions)) =
           Inr \<lparr>context_str = ''Summarized content from web search'' @ [CHR 0x0A, CHR 0x0A] @
                  ''(This information is from web search results and may not be fully accurate. Refer to the original sources for verification.)'',
                sources = map WebSource (sources exampleWeb),
                tokenCount = intOr (usageField exampleResponse totalTokens) 0\<rparr> \<and>
         modelCalls (snd (getContext (exampleWorld [] (Inr exampleWeb) (Inr exampleResponse))
          ''Test query'' (Some exampleOptions))) = 1 \<and>
         webSearchCalls (snd (getContext (exampleWorld [] (Inr exampleWeb) (Inr exampleResponse))
          ''Test query'' (Some exampleOptions))) = 1 \<and>
         (\<forall>n. usageField exampleResponse totalTokens = Some n \<longrightarrow>
              intOr (usageField exampleResponse totalTokens) 0 = n)"
    by (rule web_summary_result[OF primaryStage_example])
       (simp_all add: examplePrimary_empty exampleWorld_sel exampleWeb_def exampleResponse_def)
  then show ?thesis
    by (simp add: exampleResponse_def usageField_def intOr_def exampleWeb_def)
qed

text \<open>
  C2, as stated, fails: with no retrieved document, fallback search enabled, a web search that
  returns text and a model router that answers without success, the result of
  \<^const>\<open>getContext\<close> is not the empty-context result.
\<close>

theorem failed_summarization_is_not_empty_result:
  "w_retrieveDocuments (exampleWorld [] (Inr exampleWeb) (Inr failedResponse)) [0.1, 0.2, 0.3]
      (retrievalOptionsOf ''test-instance'' (resolveSettings None exampleOptions) exampleOptions)
     = Inr [] \<and>
   s_enableFallbackSearch (resolveSettings None exampleOptions) \<and>
   w_webSearch (exampleWorld [] (Inr exampleWeb) (Inr failedResponse)) ''Test query''
      ''test-instance'' = Inr exampleWeb \<and>
   context_str exampleWeb \<noteq> [] \<and>
   summarizationFails (exampleWorld [] (Inr exampleWeb) (Inr failedResponse))
      (context_str exampleWeb) ''test-instance'' \<and>
   fst (getContext (exampleWorld [] (Inr exampleWeb) (Inr failedResponse)) ''Test query''
          (Some exampleOptions)) \<noteq> Inr \<lparr>context_str = [], sources = [], tokenCount = 0\<rparr>"
proof -
  have sf: "summarizationFails (exampleWorld [] (Inr exampleWeb) (Inr failedResponse))
      (context_str exampleWeb) ''test-instance''"
    by (simp add: summarizationFails_def exampleWorld_sel failedResponse_def)
  from getContext_summarization_failed_example[OF sf] sf show ?thesis
    by (simp add: exampleWorld_sel exampleSettings exampleWeb_def)
qed

text \<open>
  C2, amended. When the primary stage ends with no source, fallback search is enabled, the web
  search returns a result with text and the summarization call fails (the model router
  throws, reports no success or delivers no content), \<^const>\<open>getContext\<close> does not surface
  the exception: it returns the fixed text \<open>Unable to summarize web search results due to an
  error.\<close> as context, the web search's sources, and token count 0.
\<close>

theorem failed_summarization_returns_placeholder:
  assumes "fst (primaryStage w q opts) = Inr p"
    and "sources (p_contextResult p) = []"
    and "s_enableFallbackSearch (p_settings p)"
    and "w_webSearch w q (p_aiInstanceId p) = Inr b" and "context_str b \<noteq> []"
    and "summarizationFails w (context_str b) (p_aiInstanceId p)"
  shows "fst (getContext w q opts) =
           Inr \<lparr>context_str = ''Unable to summarize web search results due to an error.'',
                sources = map WebSource (sources b), tokenCount = 0\<rparr>"
  using getContext_fallback(1)[OF assms(1-5) summarizeWebResults_failed[OF assms(6)]]
  by (simp add: summaryFailure_def)

theorem failed_summarization_returns_placeholder_witness:
  "fst (getContext (exampleWorld [] (Inr exampleWeb) (Inl (Error ''model router down'')))
          ''Test query'' (Some exampleOptions)) =
     Inr \<lparr>context_str = ''Unable to summarize web search results due to an error.'',
          sources = map WebSource (sources exampleWeb), tokenCount = 0\<rparr>"
  by (rule failed_summarization_returns_placeholder[OF primaryStage_example])
     (simp_all add: examplePrimary_empty exampleWorld_sel exampleWeb_def summarizationFails_def)

text \<open>
  C1, as stated, fails for errors of the fallback collaborators. When the web search throws,
  the context is the empty string, not a diagnostic; when the model router throws, the context
  is a fixed text but the sources are the web search's and the token count is 0, not a quarter
  of the text's length rounded up.
\<close>

theorem fallback_failures_yield_no_diagnostic:
  "w_webSearch (exampleWorld [] (Inl (Error ''web search unavailable'')) (Inl Thrown))
       ''Test query'' ''test-instance'' = Inl (Error ''web search unavailable'') \<and>
   fst (getContext (exampleWorld [] (Inl (Error ''web search unavailable'')) (Inl Thrown))
          ''Test query'' (Some exampleOptions)) =
     Inr \<lparr>context_str = [], sources = [], tokenCount = 0\<rparr> \<and>
   w_routeModelCall (exampleWorld [] (Inr exampleWeb) (Inl Thrown))
       (summarizationRequest (context_str exampleWeb) ''test-instance'') = Inl Thrown \<and>
   fst (getContext (exampleWorld [] (Inr exampleWeb) (Inl Thrown)) ''Test query''
          (Some exampleOptions)) =
     Inr \<lparr>context_str = ''Unable to summarize web search results due to an error.'',
          sources = map WebSource (sources exampleWeb), tokenCount = 0\<rparr> \<and>
   map WebSource (sources exampleWeb) \<noteq> [] \<and>
   \<lceil>real (length ''Unable to summarize web search results due to an error.'') / 4\<rceil> \<noteq> (0 :: int)"
proof -
  have sf: "summarizationFails (exampleWorld [] (Inr exampleWeb) (Inl Thrown))
      (context_str exampleWeb) ''test-instance''"
    by (simp add: summarizationFails_def exampleWorld_sel)
  show ?thesis
    by (simp add: getContext_no_documents_web_throws getContext_summarization_failed_example[OF sf]
        exampleWorld_sel)
       (simp add: exampleWeb_def)
qed

text \<open>
  C1, amended. Whatever the collaborators do, \<^const>\<open>getContext\<close> returns a result and
  never raises. When the primary stage raises (invalid options, client creation,
  configuration load, embedding, retrieval), the context is the diagnostic: the sentence
  \<open>Unable to retrieve contextual information from documents at this time. The RAG system
  encountered an error:\<close>, a space and the message of the exception (\<open>Unknown error\<close> for a
  thrown value that is not an \<open>Error\<close>), with the white space at the end trimmed; the sources
  are empty and the token count is a quarter of the diagnostic's length, rounded up. A failure
  of a fallback collaborator produces no such diagnostic. When the primary stage ends with no
  source and fallback search is enabled, a web search that throws gives the empty context, no
  source and token count 0; a web search that returns text followed by a failed summarization
  (the model router throws, reports no success or delivers no content) gives the fixed text
  \<open>Unable to summarize web search results due to an error.\<close>, the web search's sources and
  token count 0.
\<close>

theorem getContext_never_raises:
  "(\<exists>r. fst (getContext w q opts) = Inr r) \<and>
   (\<forall>e. fst (primaryStage w q opts) = Inl e \<longrightarrow>
      fst (getContext w q opts) =
        Inr \<lparr>context_str =
               ''Unable to retrieve contextual information from documents at this time. The RAG system encountered an error:'' @
               rev (dropWhile isWhitespace
                 (rev ('' '' @ (case e of Error msg \<Rightarrow> msg | Thrown \<Rightarrow> ''Unknown error'')))),
             sources = [],
             tokenCount = \<lceil>real (length
               (''Unable to retrieve contextual information from documents at this time. The RAG system encountered an error:'' @
                rev (dropWhile isWhitespace
                  (rev ('' '' @ (case e of Error msg \<Rightarrow> msg | Thrown \<Rightarrow> ''Unknown error''))))))
               / 4\<rceil>\<rparr>) \<and>
   (\<forall>p. fst (primaryStage w q opts) = Inr p \<and> sources (p_contextResult p) = [] \<and>
        s_enableFallbackSearch (p_settings p) \<longrightarrow>
      (\<forall>e. w_webSearch w q (p_aiInstanceId p) = Inl e \<longrightarrow>
         fst (getContext w q opts) = Inr \<lparr>context_str = [], sources = [], tokenCount = 0\<rparr>) \<and>
      (\<forall>b. w_webSearch w q (p_aiInstanceId p) = Inr b \<and> context_str b \<noteq> [] \<and>
           ((\<exists>e. w_routeModelCall w (summarizationRequest (context_str b) (p_aiInstanceId p))
                   = Inl e) \<or>
            (\<exists>response.
                w_routeModelCall w (summarizationRequest (context_str b) (p_aiInstanceId p))
                  = Inr response \<and>
                (\<not> success response \<or> data_content response = None \<or>
                 data_content response = Some []))) \<longrightarrow>
         fst (getContext w q opts) =
           Inr \<lparr>context_str = ''Unable to summarize web search results due to an error.'',
                sources = map WebSource (sources b), tokenCount = 0\<rparr>))"
proof (intro conjI allI impI)
  show "\<exists>r. fst (getContext w q opts) = Inr r" by (rule getContext_returns)
next
  fix e assume "fst (primaryStage w q opts) = Inl e"
  then have "fst (getContextTry w q opts) = Inl e" by (simp add: getContextTry_Inl)
  then have "fst (getContext w q opts) =
        Inr \<lparr>context_str = errorMessage e, sources = [],
             tokenCount = \<lceil>real (length (errorMessage e)) / 4\<rceil>\<rparr>"
    by (simp add: getContext_def)
  then show "fst (getContext w q opts) =
        Inr \<lparr>context_str =
               ''Unable to retrieve contextual information from documents at this time. The RAG system encountered an error:'' @
               rev (dropWhile isWhitespace
                 (rev ('' '' @ (case e of Error msg \<Rightarrow> msg | Thrown \<Rightarrow> ''Unknown error'')))),
             sources = [],
             tokenCount = \<lceil>real (length
               (''Unable to retrieve contextual information from documents at this time. The RAG system encountered an error:'' @
                rev (dropWhile isWhitespace
                  (rev ('' '' @ (case e of Error msg \<Rightarrow> msg | Thrown \<Rightarrow> ''Unknown error''))))))
               / 4\<rceil>\<rparr>"
    unfolding errorMessage_prefix diagnosticPrefix_def errorText_def .
next
  fix p e
  assume p: "fst (primaryStage w q opts) = Inr p \<and> sources (p_contextResult p) = [] \<and>
        s_enableFallbackSearch (p_settings p)"
    and e: "w_webSearch w q (p_aiInstanceId p) = Inl e"
  from p have p1: "fst (primaryStage w q opts) = Inr p"
    and p2: "sources (p_contextResult p) = []"
    and p3: "s_enableFallbackSearch (p_settings p)" by simp_all
  from getContext_web_throws[OF p1 p2 p3 e] primary_miss_is_empty[OF p1 p2]
  show "fst (getContext w q opts) = Inr \<lparr>context_str = [], sources = [], tokenCount = 0\<rparr>"
    by simp
next
  fix p b
  assume p: "fst (primaryStage w q opts) = Inr p \<and> sources (p_contextResult p) = [] \<and>
        s_enableFallbackSearch (p_settings p)"
    and b: "w_webSearch w q (p_aiInstanceId p) = Inr b \<and> context_str b \<noteq> [] \<and>
           ((\<exists>e. w_routeModelCall w (summarizationRequest (context_str b) (p_aiInstanceId p))
                   = Inl e) \<or>
            (\<exists>response.
                w_routeModelCall w (summarizationRequest (context_str b) (p_aiInstanceId p))
                  = Inr response \<and>
                (\<not> success response \<or> data_content response = None \<or>
                 data_content response = Some [])))"
  from p have p1: "fst (primaryStage w q opts) = Inr p"
    and p2: "sources (p_contextResult p) = []"
    and p3: "s_enableFallbackSearch (p_settings p)" by simp_all
  from b have b1: "w_webSearch w q (p_aiInstanceId p) = Inr b" and b2: "context_str b \<noteq> []"
    and b3: "summarizationFails w (context_str b) (p_aiInstanceId p)"
    by (simp_all add: summarizationFails_spelled)
  from getContext_fallback(1)[OF p1 p2 p3 b1 b2 summarizeWebResults_failed[OF b3]]
  show "fst (getContext w q opts) =
           Inr \<lparr>context_str = ''Unable to summarize web search results due to an error.'',
                sources = map WebSource (sources b), tokenCount = 0\<rparr>"
    by (simp add: summaryFailure_def)
qed

text \<open>
  Four calls. Without a Fireworks API key the embedding fails and the result is the
  diagnostic with that message, 240 characters and 60 tokens; when creating the client throws
  a value that is not an \<open>Error\<close>, the diagnostic ends in \<open>Unknown error\<close>; when nothing is
  retrieved and the web search throws, the result is empty; when nothing is retrieved, the
  web search returns text and the model router throws, the result is the fixed text with the
  web search's source.
\<close>

theorem getContext_never_raises_witness:
  "fst (primaryStage noKeyWorld ''Test query'' (Some exampleOptions)) =
     Inl (Error ''Failed to generate embedding: Failed to generate embedding with Fireworks: Fireworks API key is required for embedding generation'') \<and>
   fst (getContext noKeyWorld ''Test query'' (Some exampleOptions)) =
     Inr \<lparr>context_str = ''Unable to retrieve contextual information from documents at this time. The RAG system encountered an error: Failed to generate embedding: Failed to generate embedding with Fireworks: Fireworks API key is required for embedding generation'',
          sources = [], tokenCount = 60\<rparr> \<and>
   fst (primaryStage noClientWorld ''Test query'' (Some exampleOptions)) = Inl Thrown \<and>
   fst (getContext noClientWorld ''Test query'' (Some exampleOptions)) =
     Inr \<lparr>context_str = ''Unable to retrieve contextual information from documents at this time. The RAG system encountered an error: Unknown error'',
          sources = [], tokenCount = 31\<rparr> \<and>
   fst (primaryStage (exampleWorld [] (Inl Thrown) (Inl Thrown)) ''Test query''
          (Some exampleOptions)) = Inr (examplePrimary []) \<and>
   sources (p_contextResult (examplePrimary [])) = [] \<and>
   s_enableFallbackSearch (p_settings (examplePrimary [])) \<and>
   w_webSearch (exampleWorld [] (Inl Thrown) (Inl Thrown)) ''Test query''
      (p_aiInstanceId (examplePrimary [])) = Inl Thrown \<and>
   fst (getContext (exampleWorld [] (Inl Thrown) (Inl Thrown)) ''Test query''
          (Some exampleOptions)) = Inr \<lparr>context_str = [], sources = [], tokenCount = 0\<rparr> \<and>
   w_webSearch (exampleWorld [] (Inr exampleWeb) (Inl Thrown)) ''Test query''
      (p_aiInstanceId (examplePrimary [])) = Inr exampleWeb \<and>
   context_str exampleWeb \<noteq> [] \<and>
   w_routeModelCall (exampleWorld [] (Inr exampleWeb) (Inl Thrown))
      (summarizationRequest (context_str exampleWeb) (p_aiInstanceId (examplePrimary [])))
     = Inl Thrown \<and>
   fst (getContext (exampleWorld [] (Inr exampleWeb) (Inl Thrown)) ''Test query''
          (Some exampleOptions)) =
     Inr \<lparr>context_str = ''Unable to summarize web search results due to an error.'',
          sources =
            [WebSource \<lparr>cs_id = ''web-1'', cs_content = ''Example web search result snippet'',
               cs_metadata = \<lparr>sm_source = ''web'', sm_url = ''https://example.com/result'',
                              sm_title = ''Web Search Result'', sm_date = None\<rparr>\<rparr>],
          tokenCount = 0\<rparr>"
proof -
  note k = primaryStage_noKey
  note c = primaryStage_noClient[of "''Test query''"]
  note t = primaryStage_example[of "[]" "Inl Thrown" "Inl Thrown" "''Test query''"]
  note m = primaryStage_example[of "[]" "Inr exampleWeb" "Inl Thrown" "''Test query''"]
  have ws: "isWhitespace CHR '' ''" "\<not> isWhitespace CHR ''n''" "\<not> isWhitespace CHR ''r''"
    by (simp_all add: isWhitespace_def)
  from getContext_never_raises[of noKeyWorld "''Test query''" "Some exampleOptions"] k
  have "fst (getContext noKeyWorld ''Test query'' (Some exampleOptions)) =
        Inr \<lparr>context_str =
               ''Unable to retrieve contextual information from documents at this time. The RAG system encountered an error:'' @
               rev (dropWhile isWhitespace (rev ('' '' @ ''Failed to generate embedding: Failed to generate embedding with Fireworks: Fireworks API key is required for embedding generation''))),
             sources = [],
             tokenCount = \<lceil>real (length
               (''Unable to retrieve contextual information from documents at this time. The RAG system encountered an error:'' @
                rev (dropWhile isWhitespace (rev ('' '' @ ''Failed to generate embedding: Failed to generate embedding with Fireworks: Fireworks API key is required for embedding generation'')))))
               / 4\<rceil>\<rparr>"
    by simp
  then have 1: "fst (getContext noKeyWorld ''Test query'' (Some exampleOptions)) =
     Inr \<lparr>context_str = ''Unable to retrieve contextual information from documents at this time. The RAG system encountered an error: Failed to generate embedding: Failed to generate embedding with Fireworks: Fireworks API key is required for embedding generation'',
          sources = [], tokenCount = 60\<rparr>"
    by (simp add: ws)
  from getContext_never_raises[of noClientWorld "''Test query''" "Some exampleOptions"] c
  have "fst (getContext noClientWorld ''Test query'' (Some exampleOptions)) =
        Inr \<lparr>context_str =
               ''Unable to retrieve contextual information from documents at this time. The RAG system encountered an error:'' @
               rev (dropWhile isWhitespace (rev ('' '' @ ''Unknown error''))),
             sources = [],
             tokenCount = \<lceil>real (length
               (''Unable to retrieve contextual information from documents at this time. The RAG system encountered an error:'' @
                rev (dropWhile isWhitespace (rev ('' '' @ ''Unknown error'')))))
               / 4\<rceil>\<rparr>"
    by simp
  then have 2: "fst (getContext noClientWorld ''Test query'' (Some exampleOptions)) =
     Inr \<lparr>context_str = ''Unable to retrieve contextual information from documents at this time. The RAG system encountered an error: Unknown error'',
          sources = [], tokenCount = 31\<rparr>"
    by (simp add: ws)
  have e: "sources (p_contextResult (examplePrimary [])) = []"
      "s_enableFallbackSearch (p_settings (examplePrimary []))"
    by (rule examplePrimary_empty)+
  have wt: "w_webSearch (exampleWorld [] (Inl Thrown) (Inl Thrown)) ''Test query''
      (p_aiInstanceId (examplePrimary [])) = Inl Thrown"
    by (simp add: exampleWorld_sel)
  from getContext_never_raises
         [of "exampleWorld [] (Inl Thrown) (Inl Thrown)" "''Test query''" "Some exampleOptions"]
    t e wt
  have 3: "fst (getContext (exampleWorld [] (Inl Thrown) (Inl Thrown)) ''Test query''
          (Some exampleOptions)) = Inr \<lparr>context_str = [], sources = [], tokenCount = 0\<rparr>"
    by blast
  have wm: "w_webSearch (exampleWorld [] (Inr exampleWeb) (Inl Thrown)) ''Test query''
      (p_aiInstanceId (examplePrimary [])) = Inr exampleWeb"
     "context_str exampleWeb \<noteq> []"
     "w_routeModelCall (exampleWorld [] (Inr exampleWeb) (Inl Thrown))
        (summarizationRequest (context_str exampleWeb) (p_aiInstanceId (examplePrimary [])))
       = Inl Thrown"
    by (simp_all add: exampleWorld_sel exampleWeb_def)
  from getContext_never_raises
         [of "exampleWorld [] (Inr exampleWeb) (Inl Thrown)" "''Test query''" "Some exampleOptions"]
    m e wm
  have "fst (getContext (exampleWorld [] (Inr exampleWeb) (Inl Thrown)) ''Test query''
          (Some exampleOptions)) =
     Inr \<lparr>context_str = ''Unable to summarize web search results due to an error.'',
          sources = map WebSource (sources exampleWeb), tokenCount = 0\<rparr>"
    by blast
  then have 4: "fst (getContext (exampleWorld [] (Inr exampleWeb) (Inl Thrown)) ''Test query''
          (Some exampleOptions)) =
     Inr \<lparr>context_str = ''Unable to summarize web search results due to an error.'',
          sources =
            [WebSource \<lparr>cs_id = ''web-1'', cs_content = ''Example web search result snippet'',
               cs_metadata = \<lparr>sm_source = ''web'', sm_url = ''https://example.com/result'',
                              sm_title = ''Web Search Result'', sm_date = None\<rparr>\<rparr>],
          tokenCount = 0\<rparr>"
    by (simp add: exampleWeb_def)
  from k 1 c 2 t e wt 3 wm 4 show ?thesis by (intro conjI)
qed




section \<open>Embedding providers: properties\<close>

text \<open>
  C4, as stated, fails: the name \<open>openai\<close> is neither \<open>bedrock\<close> nor \<open>fireworks\<close>, and
  \<^const>\<open>createEmbeddingProvider\<close> answers it with a Fireworks embedder, not with an error.
\<close>

theorem unknown_provider_does_not_fail:
  "toLowerCase ''openai'' \<noteq> ''bedrock'' \<and> toLowerCase ''openai'' \<noteq> ''fireworks'' \<and>
   createEmbeddingProvider exampleEnv ''openai'' None None =
     Inr (FireworksEmbedder
            \<lparr>f_modelId = ''deepseek-v3'', f_apiKey = ''test-api-key'', f_trackUsage = True\<rparr>)"
proof -
  have "toLowerCase ''openai'' = ''openai''" by code_simp
  then show ?thesis
    by (simp add: createEmbeddingProvider_def strOr_def newFireworksEmbedder_def
      exampleEnv_def trackUsageOf_def)
qed

text \<open>
  C4, amended. For every provider name that is not \<open>bedrock\<close> case-insensitively, so for
  every unrecognized name, \<^const>\<open>createEmbeddingProvider\<close> does not fail: it returns a
  Fireworks embedder, the one that the name \<open>fireworks\<close> selects with the same model and
  configuration.
\<close>

theorem unknown_provider_defaults_to_fireworks:
  "toLowerCase provider \<noteq> ''bedrock'' \<Longrightarrow>
   createEmbeddingProvider env provider modelId config =
     createEmbeddingProvider env ''fireworks'' modelId config \<and>
   (\<exists>f. createEmbeddingProvider env provider modelId config = Inr (FireworksEmbedder f))"
  by (simp add: createEmbeddingProvider_def strOr_def toLowerCase_fireworks Let_def)

theorem unknown_provider_defaults_to_fireworks_witness:
  "toLowerCase ''OpenAI'' \<noteq> ''bedrock'' \<and>
   createEmbeddingProvider exampleEnv ''OpenAI'' (Some ''text-embedding-3-small'') None =
     Inr (FireworksEmbedder
            \<lparr>f_modelId = ''text-embedding-3-small'', f_apiKey = ''test-api-key'',
             f_trackUsage = True\<rparr>)"
proof -
  have l: "toLowerCase ''OpenAI'' = ''openai''"
    by code_simp
  then have h: "toLowerCase ''OpenAI'' \<noteq> ''bedrock''" by simp
  from unknown_provider_defaults_to_fireworks
         [OF h, of exampleEnv "Some ''text-embedding-3-small''" None] h
  show ?thesis
    by (simp add: createEmbeddingProvider_def strOr_def toLowerCase_fireworks
        newFireworksEmbedder_def exampleEnv_def trackUsageOf_def)
qed

text \<open>
  C10. For Bedrock embedders with credentials, the result of
  \<^const>\<open>bedrockGenerateEmbedding\<close> depends on the text through its length only: two texts
  of equal length get the identical result, whatever the instance ids and the embedders'
  models; the vector has 1536 entries and the token count is a quarter of the text's length,
  rounded up.
\<close>

theorem bedrock_embedding_depends_on_length_only:
  assumes "b_accessKeyId self1 \<noteq> []" and "b_secretAccessKey self1 \<noteq> []"
    and "b_accessKeyId self2 \<noteq> []" and "b_secretAccessKey self2 \<noteq> []"
    and "length text1 = length text2"
  shows "fst (bedrockGenerateEmbedding w self1 text1 a1) =
           fst (bedrockGenerateEmbedding w self2 text2 a2) \<and>
         (\<exists>r. fst (bedrockGenerateEmbedding w self1 text1 a1) = Inr r \<and>
              length (embedding r) = 1536 \<and>
              embeddingTokenCount r = \<lceil>real (length text1) / 4\<rceil>)"
  using assms
  by (simp add: bedrockGenerateEmbedding_def fst_rethrow bedrockTry_def Let_def estimateTokens_def
      mockEmbedding_def)

theorem bedrock_embedding_depends_on_length_only_witness:
  "b_accessKeyId exampleBedrock \<noteq> [] \<and> b_secretAccessKey exampleBedrock \<noteq> [] \<and>
   length ''What is Paris?'' = length ''Where is Rome?'' \<and>
   ''What is Paris?'' \<noteq> ''Where is Rome?'' \<and>
   fst (bedrockGenerateEmbedding (exampleWorld [] (Inl Thrown) (Inl Thrown)) exampleBedrock
          ''What is Paris?'' (Some ''test-instance'')) =
   fst (bedrockGenerateEmbedding (exampleWorld [] (Inl Thrown) (Inl Thrown)) exampleBedrock
          ''Where is Rome?'' None)"
proof -
  have h: "b_accessKeyId exampleBedrock \<noteq> []" "b_secretAccessKey exampleBedrock \<noteq> []"
    by (simp_all add: exampleBedrock_def)
  have l: "length ''What is Paris?'' = length ''Where is Rome?''" by simp
  from bedrock_embedding_depends_on_length_only[OF h h l] h l show ?thesis by simp
qed

section \<open>Brave Search provider: properties\<close>

lemma mock_context_nonempty: "context_str (getMockResults q n) \<noteq> []"
proof -
  have a: "\<not> isWhitespace CHR ''F''" and l: "\<forall>c\<in>set nl. isWhitespace c"
    by (simp_all add: isWhitespace_def nl_def)
  show ?thesis
    unfolding getMockResults_def Let_def context_result.simps append_Cons append_Nil
    by (rule trim_leading[OF l a])
qed

lemma mock_sources:
  "length (sources (getMockResults q n)) \<le> 2"
  "\<forall>s\<in>set (sources (getMockResults q n)).
      cs_content s \<noteq> [] \<and> take 20 (sm_url (cs_metadata s)) = ''https://example.com/''"
  by (auto simp: getMockResults_def Let_def slice0_def dest!: in_set_takeD)

lemma mock_sources_full:
  "2 \<le> n \<Longrightarrow> length (sources (getMockResults q (Some n))) = 2"
  "length (sources (getMockResults q None)) = 2"
  by (simp_all add: getMockResults_def Let_def slice0_def)

lemma braveGetContext_returns: "\<exists>r. braveGetContext self q options = Inr r"
  by (simp add: braveGetContext_def split: sum.splits)

lemma braveGetContext_mock:
  assumes "apiKey self = [] \<or> options = None \<or>
           (\<exists>opts. options = Some opts \<and> braveApiFails self q (maxResultsOf opts))"
  shows "\<exists>n. braveGetContext self q options = Inr (getMockResults q n)"
proof (cases options)
  case None
  then have "braveGetContext self q options = Inr (getMockResults q None)"
    by (simp add: braveGetContext_def braveTry_def)
  then show ?thesis by (rule exI)
next
  case (Some opts)
  show ?thesis
  proof (cases "apiKey self = []")
    case True
    with Some have "braveGetContext self q options = Inr (getMockResults q (Some (maxResultsOf opts)))"
      by (simp add: braveGetContext_def braveTry_def Let_def)
    then show ?thesis by (rule exI)
  next
    case False
    with assms Some have "braveApiFails self q (maxResultsOf opts)" by simp
    then have "isl (braveTry self q options)"
      using Some False
      by (auto simp: braveApiFails_def braveTry_def Let_def split: sum.splits)
    then have "braveGetContext self q options = Inr (getMockResults q None)"
      by (auto simp: braveGetContext_def isl_def)
    then show ?thesis by (rule exI)
  qed
qed

lemma braveWebSearch_mock:
  assumes "apiKey self = [] \<or> braveApiFails self q 5"
  shows "\<exists>n. braveWebSearch self q a = Inr (getMockResults q n) \<and>
             length (sources (getMockResults q n)) = 2"
proof (cases "apiKey self = []")
  case True
  then have "braveWebSearch self q a = Inr (getMockResults q (Some 5))"
    by (simp add: braveWebSearch_def braveGetContext_def braveTry_def Let_def maxResultsOf_def)
  then show ?thesis using mock_sources_full(1)[of 5 q] by auto
next
  case False
  with assms have "braveApiFails self q 5" by simp
  then have "isl (braveTry self q (Some \<lparr>bo_aiInstanceId = Some a, bo_maxResults = Some 5\<rparr>))"
    using False
    by (auto simp: braveApiFails_def braveTry_def Let_def maxResultsOf_def split: sum.splits)
  then have "braveWebSearch self q a = Inr (getMockResults q None)"
    by (auto simp: braveWebSearch_def braveGetContext_def isl_def)
  then show ?thesis using mock_sources_full(2)[of q] by auto
qed

lemma fallbackTry_brave:
  assumes "w_webSearch w = braveWebSearch self"
  shows "\<exists>x. fst (fallbackTry w q p) = Inr x"
proof -
  obtain r where "braveWebSearch self q (p_aiInstanceId p) = Inr r"
    using braveGetContext_returns[of self q] unfolding braveWebSearch_def by blast
  with assms show ?thesis
    by (simp add: fallbackTry_def fst_andThen returns_def Let_def)
qed

text \<open>
  C9. \<^const>\<open>braveGetContext\<close> never throws. When the API key is absent, the options are
  missing or the search API call fails, it returns the mock results: a non-empty context and
  at most two sources, each with non-empty content and an \<open>example.com\<close> URL. So in a world
  whose web search is this provider, the \<open>try\<close> block of the fallback never ends with an
  exception, and on a missing key or a failed API call it goes on to summarize the mock
  content and returns its two sources.
\<close>

theorem brave_never_throws:
  "(\<exists>r. braveGetContext self q options = Inr r) \<and>
   (apiKey self = [] \<or> options = None \<or>
      (\<exists>opts. options = Some opts \<and> braveApiFails self q (maxResultsOf opts)) \<longrightarrow>
    (\<exists>r n. braveGetContext self q options = Inr r \<and> r = getMockResults q n \<and>
       context_str r \<noteq> [] \<and> length (sources r) \<le> 2 \<and>
       (\<forall>s\<in>set (sources r).
           cs_content s \<noteq> [] \<and> take 20 (sm_url (cs_metadata s)) = ''https://example.com/''))) \<and>
   (w_webSearch w = braveWebSearch self \<longrightarrow>
      (\<exists>x. fst (fallbackTry w q p) = Inr x) \<and>
      (apiKey self = [] \<or> braveApiFails self q 5 \<longrightarrow>
         (\<exists>r. fst (fallbackTry w q p) = Inr (Some r) \<and> length (sources r) = 2)))"
proof (intro conjI impI)
  show "\<exists>r. braveGetContext self q options = Inr r" by (rule braveGetContext_returns)
next
  assume "apiKey self = [] \<or> options = None \<or>
      (\<exists>opts. options = Some opts \<and> braveApiFails self q (maxResultsOf opts))"
  from braveGetContext_mock[OF this] obtain n where
    "braveGetContext self q options = Inr (getMockResults q n)" by blast
  then show "\<exists>r n. braveGetContext self q options = Inr r \<and> r = getMockResults q n \<and>
       context_str r \<noteq> [] \<and> length (sources r) \<le> 2 \<and>
       (\<forall>s\<in>set (sources r).
           cs_content s \<noteq> [] \<and> take 20 (sm_url (cs_metadata s)) = ''https://example.com/'')"
    using mock_context_nonempty[of q n] mock_sources[of q n] by blast
next
  assume "w_webSearch w = braveWebSearch self"
  then show "\<exists>x. fst (fallbackTry w q p) = Inr x" by (rule fallbackTry_brave)
next
  assume w: "w_webSearch w = braveWebSearch self" and f: "apiKey self = [] \<or> braveApiFails self q 5"
  from braveWebSearch_mock[OF f, of "p_aiInstanceId p"] obtain n where
    n: "braveWebSearch self q (p_aiInstanceId p) = Inr (getMockResults q n)"
       "length (sources (getMockResults q n)) = 2" by blast
  show "\<exists>r. fst (fallbackTry w q p) = Inr (Some r) \<and> length (sources r) = 2"
    using w n mock_context_nonempty[of q n]
    by (simp add: fallbackTry_def fst_andThen Let_def)
qed

theorem brave_never_throws_witness:
  "apiKey exampleBrave = [] \<and>
   (\<exists>r. braveGetContext exampleBrave ''Test query'' None = Inr r \<and>
        context_str r \<noteq> [] \<and> length (sources r) \<le> 2) \<and>
   w_webSearch braveWorld = braveWebSearch exampleBrave \<and>
   (\<exists>r. fst (fallbackTry braveWorld ''Test query'' (examplePrimary [])) = Inr (Some r) \<and>
        length (sources r) = 2)"
proof -
  have k: "apiKey exampleBrave = []"
    by (simp add: exampleBrave_def newBraveSearchProvider_def exampleEnv_def strOr_def)
  have w: "w_webSearch braveWorld = braveWebSearch exampleBrave"
    by (simp add: braveWorld_def exampleWorld_def)
  from brave_never_throws[of exampleBrave "''Test query''" None braveWorld "examplePrimary []"] k w
  show ?thesis by blast
qed

end
